theory Spec2Isabelle
  imports Complex_Main "HOL-Library.AList"
begin

section \<open>JavaScript primitives used by the services\<close>

text \<open>
  Strings are lists of 8-bit characters; case conversion covers the ASCII letters and
  white space is the ASCII white space of JavaScript (space, tab, line feed, vertical
  tab, form feed, carriage return). The euro sign is its three UTF-8 bytes.

  Numbers that the services read from a candidate record or from validated search
  parameters are the integer columns of the players table and the integer fields of the
  schema, so they are \<open>int\<close>. Quotients and percentages are exact rationals. The
  source compares such quotients with decimal literals in IEEE double arithmetic; for
  integer operands below \<open>2^53\<close> the comparisons made here have the same outcome in
  exact arithmetic. Division by zero is kept as in IEEE arithmetic: \<open>js_number\<close>.
\<close>

datatype js_error = TypeError | SyntaxError | ApiError | NoFunctionCall | AllRetriesFailed

datatype js_number = Finite rat | PosInfinity | NegInfinity | NaN

definition js_div :: "int \<Rightarrow> int \<Rightarrow> js_number" where
  "js_div a b =
     (if b \<noteq> 0 then Finite (of_int a / of_int b)
      else if 0 < a then PosInfinity
      else if a < 0 then NegInfinity
      else NaN)"

fun js_ge :: "js_number \<Rightarrow> rat \<Rightarrow> bool" where
  "js_ge (Finite x) y = (y \<le> x)"
| "js_ge PosInfinity y = True"
| "js_ge NegInfinity y = False"
| "js_ge NaN y = False"

definition js_round :: "rat \<Rightarrow> int" where
  \<comment> \<open>\<open>Math.round\<close>: the nearest integer, a tie going up.\<close>
  "js_round x = \<lfloor>x + 1 / 2\<rfloor>"

definition digit_char :: "nat \<Rightarrow> char" where
  \<comment> \<open>The decimal digit of a number below 10: its code is 48 plus the number.\<close>
  "digit_char n = char_of (48 + n)"

fun digits :: "nat \<Rightarrow> string" where
  "digits n = (if n < 10 then [digit_char n] else digits (n div 10) @ [digit_char (n mod 10)])"

definition show_int :: "int \<Rightarrow> string" where
  \<comment> \<open>\<open>Number.prototype.toString\<close> and template interpolation of an integer.\<close>
  "show_int i = (if i < 0 then CHR ''-'' # digits (nat (- i)) else digits (nat i))"

definition toFixed :: "rat \<Rightarrow> nat \<Rightarrow> string" where
  \<comment> \<open>\<open>Number.prototype.toFixed\<close> on the exact quotient: the nearest multiple of
      \<open>10^-d\<close>, a tie going away from zero.\<close>
  "toFixed x d =
     (let n = nat (js_round (\<bar>x\<bar> * 10 ^ d));
          whole = digits (n div 10 ^ d);
          frac = digits (n mod 10 ^ d);
          padded = replicate (d - length frac) (CHR ''0'') @ frac
      in (if x < 0 then ''-'' else '''') @ whole @ (if d = 0 then '''' else ''.'' @ padded))"

definition upper_letters :: string where
  "upper_letters = ''ABCDEFGHIJKLMNOPQRSTUVWXYZ''"

definition lower_letters :: string where
  "lower_letters = ''abcdefghijklmnopqrstuvwxyz''"

definition lower_char :: "char \<Rightarrow> char" where
  "lower_char c = (case map_of (zip upper_letters lower_letters) c of Some d \<Rightarrow> d | None \<Rightarrow> c)"

definition upper_char :: "char \<Rightarrow> char" where
  "upper_char c = (case map_of (zip lower_letters upper_letters) c of Some d \<Rightarrow> d | None \<Rightarrow> c)"

definition toLowerCase :: "string \<Rightarrow> string" where
  "toLowerCase s = map lower_char s"

definition toUpperCase :: "string \<Rightarrow> string" where
  "toUpperCase s = map upper_char s"

fun starts_with :: "string \<Rightarrow> string \<Rightarrow> bool" where
  "starts_with s [] = True"
| "starts_with [] (c # t) = False"
| "starts_with (a # s) (c # t) = (a = c \<and> starts_with s t)"

fun str_includes :: "string \<Rightarrow> string \<Rightarrow> bool" where
  \<comment> \<open>\<open>String.prototype.includes\<close>\<close>
  "str_includes [] t = (t = [])"
| "str_includes (a # s) t = (starts_with (a # s) t \<or> str_includes s t)"

fun join :: "string \<Rightarrow> string list \<Rightarrow> string" where
  "join sep [] = []"
| "join sep [x] = x"
| "join sep (x # y # ys) = x @ sep @ join sep (y # ys)"

definition capitalize :: "string \<Rightarrow> string" where
  \<comment> \<open>\<open>s.charAt(0).toUpperCase() + s.slice(1)\<close>\<close>
  "capitalize s = (case s of [] \<Rightarrow> [] | c # cs \<Rightarrow> upper_char c # cs)"

definition euro :: string where
  "euro = [CHR 0xE2, CHR 0x82, CHR 0xAC]"

definition truthy_num :: "int option \<Rightarrow> bool" where
  \<comment> \<open>An absent number and the number 0 are falsy.\<close>
  "truthy_num x = (case x of None \<Rightarrow> False | Some n \<Rightarrow> n \<noteq> 0)"

definition truthy_str :: "string option \<Rightarrow> bool" where
  \<comment> \<open>An absent string and the empty string are falsy.\<close>
  "truthy_str x = (case x of None \<Rightarrow> False | Some s \<Rightarrow> s \<noteq> [])"

definition num_or :: "int option \<Rightarrow> string \<Rightarrow> string" where
  \<comment> \<open>\<open>${n || alt}\<close>\<close>
  "num_or x alt = (case x of None \<Rightarrow> alt | Some n \<Rightarrow> if n = 0 then alt else show_int n)"

definition num_or_zero :: "int option \<Rightarrow> int" where
  \<comment> \<open>\<open>n || 0\<close>\<close>
  "num_or_zero x = (case x of None \<Rightarrow> 0 | Some n \<Rightarrow> n)"

definition str_or :: "string option \<Rightarrow> string \<Rightarrow> string" where
  \<comment> \<open>\<open>s || alt\<close>\<close>
  "str_or x alt = (case x of None \<Rightarrow> alt | Some s \<Rightarrow> if s = [] then alt else s)"

section \<open>The candidate record and the search parameters\<close>

text \<open>
  \<open>Player\<close> of the models. The position field is kept loose, since the service
  calls a string method on it: \<open>JOther\<close> is a truthy value that is not a string (a number,
  an object), as a malformed record may hold. A date is a time value in milliseconds or
  an invalid date. The fields the explanation service never reads (id, currentClub,
  heightCm, foot, createdAt, updatedAt) are left out.
\<close>

datatype js_field = JUndefined | JString string | JOther

datatype js_date = DateAt int | InvalidDate

record player =
  name :: string
  position :: js_field
  age :: "int option"
  nationality :: "string option"
  marketValueEuros :: "int option"
  league :: "string option"
  goalsThisSeason :: int
  assistsThisSeason :: int
  appearancesThisSeason :: int
  contractExpires :: "js_date option"

record num_range =
  rmin :: "int option"
  rmax :: "int option"

datatype transfer_status = Available | ContractEnding | AnyStatus

datatype sort_field = SortName | SortAge | SortMarketValue | SortGoals | SortAssists | SortRelevance

datatype sort_direction = Asc | Desc

datatype preferred_foot = LeftFoot | RightFoot | BothFeet

text \<open>\<open>AdvancedSearchParameters\<close>: the output type of \<open>AdvancedSearchSchema\<close>.\<close>

record advanced_params =
  sp_query :: "string option"
  sp_name :: "string option"
  sp_position :: "string list option"
  sp_age :: "num_range option"
  sp_nationality :: "string list option"
  sp_currentClub :: "string list option"
  sp_league :: "string list option"
  sp_marketValue :: "num_range option"
  sp_height :: "num_range option"
  sp_foot :: "preferred_foot option"
  sp_goals :: "num_range option"
  sp_assists :: "num_range option"
  sp_appearances :: "num_range option"
  sp_transferStatus :: "transfer_status option"
  sp_contractExpiring :: "bool option"
  sp_keywords :: "string list option"
  sp_sortBy :: sort_field
  sp_sortDirection :: sort_direction
  sp_page :: int
  sp_limit :: int
  sp_exactMatch :: bool
  sp_includeRetired :: bool
  sp_originalQuery :: "string option"
  sp_parsedIntent :: "string option"
  sp_priorityFactors :: "string list"
  sp_confidence :: "rat option"
  sp_searchId :: "string option"
  sp_sessionId :: "string option"
  sp_userIp :: "string option"

record explanation_context =
  searchIntent :: string
  priorityFactors :: "string list"
  originalQuery :: string
  resultRank :: int
  totalResults :: int

section \<open>MatchExplanationService: scoring\<close>

definition weight_position :: int where "weight_position = 25"
definition weight_age :: int where "weight_age = 20"
definition weight_nationality :: int where "weight_nationality = 15"
definition weight_league :: int where "weight_league = 12"
definition weight_marketValue :: int where "weight_marketValue = 10"
definition weight_performance :: int where "weight_performance = 8"
definition weight_contract :: int where "weight_contract = 2"

record benchmark =
  goals :: int
  assists :: int
  appearances :: int

definition POSITION_BENCHMARKS :: "(string \<times> benchmark) list" where
  "POSITION_BENCHMARKS =
    [(''ST'', \<lparr>goals = 15, assists = 5, appearances = 25\<rparr>),
     (''CF'', \<lparr>goals = 12, assists = 8, appearances = 25\<rparr>),
     (''LW'', \<lparr>goals = 8, assists = 10, appearances = 25\<rparr>),
     (''RW'', \<lparr>goals = 8, assists = 10, appearances = 25\<rparr>),
     (''CAM'', \<lparr>goals = 6, assists = 12, appearances = 25\<rparr>),
     (''CM'', \<lparr>goals = 4, assists = 8, appearances = 25\<rparr>),
     (''CDM'', \<lparr>goals = 2, assists = 6, appearances = 25\<rparr>),
     (''LB'', \<lparr>goals = 1, assists = 4, appearances = 25\<rparr>),
     (''RB'', \<lparr>goals = 1, assists = 4, appearances = 25\<rparr>),
     (''CB'', \<lparr>goals = 2, assists = 2, appearances = 25\<rparr>),
     (''GK'', \<lparr>goals = 0, assists = 0, appearances = 25\<rparr>)]"

definition benchmark_for :: "string \<Rightarrow> benchmark" where
  \<comment> \<open>\<open>POSITION_BENCHMARKS[position] || POSITION_BENCHMARKS['CM']\<close>\<close>
  "benchmark_for pos =
     (case map_of POSITION_BENCHMARKS pos of
        Some b \<Rightarrow> b
      | None \<Rightarrow> \<lparr>goals = 4, assists = 8, appearances = 25\<rparr>)"

record match_score =
  score :: int
  explanation :: string

definition getCompatiblePositions :: "string \<Rightarrow> string list" where
  "getCompatiblePositions pos =
     (case map_of
        [(''ST'', [''CF'']),
         (''CF'', [''ST'', ''CAM'']),
         (''LW'', [''LM'', ''LWB'']),
         (''RW'', [''RM'', ''RWB'']),
         (''CAM'', [''CM'', ''CF'']),
         (''CM'', [''CDM'', ''CAM'']),
         (''CDM'', [''CM'', ''CB'']),
         (''LB'', [''LWB'', ''LM'']),
         (''RB'', [''RWB'', ''RM'']),
         (''CB'', [''CDM''])] pos of
        Some ps \<Rightarrow> ps
      | None \<Rightarrow> [])"

definition formatValue :: "int \<Rightarrow> string" where
  "formatValue v =
     (if 1000000 \<le> v then toFixed (of_int v / 1000000) 1 @ ''M''
      else if 1000 \<le> v then toFixed (of_int v / 1000) 0 @ ''K''
      else show_int v)"

definition scorePosition :: "player \<Rightarrow> string list \<Rightarrow> js_error + match_score" where
  "scorePosition p searchPositions =
     (case position p of
        JUndefined \<Rightarrow> Inr \<lparr>score = 0, explanation = ''Player position not specified''\<rparr>
      | JOther \<Rightarrow> Inl TypeError
      | JString pos \<Rightarrow>
          if pos = [] then Inr \<lparr>score = 0, explanation = ''Player position not specified''\<rparr>
          else
            let playerPos = toUpperCase pos in
            if playerPos \<in> set searchPositions then
              Inr \<lparr>score = weight_position,
                   explanation = ''Perfect position match: '' @ pos\<rparr>
            else if list_ex (\<lambda>q. q \<in> set (getCompatiblePositions playerPos)) searchPositions then
              Inr \<lparr>score = js_round (of_int weight_position * (7 / 10)),
                   explanation = ''Compatible position: '' @ pos @ '' can play ''
                     @ join '', '' searchPositions\<rparr>
            else
              Inr \<lparr>score = 0,
                   explanation = ''Position mismatch: '' @ pos @ '' vs requested ''
                     @ join '', '' searchPositions\<rparr>)"

definition scoreAge :: "player \<Rightarrow> num_range \<Rightarrow> match_score" where
  "scoreAge p ageRange =
     (if \<not> truthy_num (age p) then \<lparr>score = 0, explanation = ''Player age not specified''\<rparr>
      else
        let a = the (age p); mn = rmin ageRange; mx = rmax ageRange in
        if truthy_num mn \<and> truthy_num mx \<and> the mn \<le> a \<and> a \<le> the mx then
          \<lparr>score = weight_age,
           explanation = ''Perfect age match: '' @ show_int a @ '' within '' @ show_int (the mn)
             @ ''-'' @ show_int (the mx) @ '' range''\<rparr>
        else if truthy_num mx \<and> \<not> truthy_num mn \<and> a \<le> the mx then
          \<lparr>score = weight_age,
           explanation = ''Age requirement met: '' @ show_int a @ '' under '' @ show_int (the mx)\<rparr>
        else if truthy_num mn \<and> \<not> truthy_num mx \<and> the mn \<le> a then
          \<lparr>score = weight_age,
           explanation = ''Age requirement met: '' @ show_int a @ '' over '' @ show_int (the mn)\<rparr>
        else if truthy_num mn \<and> truthy_num mx
                \<and> ((the mn - 2 \<le> a \<and> a < the mn) \<or> (the mx < a \<and> a \<le> the mx + 2)) then
          \<lparr>score = js_round (of_int weight_age * (1 / 2)),
           explanation = ''Close to age range: '' @ show_int a @ '' near '' @ show_int (the mn)
             @ ''-'' @ show_int (the mx)\<rparr>
        else
          \<lparr>score = 0,
           explanation = ''Age mismatch: '' @ show_int a @ '' vs requested '' @ num_or mn ''?''
             @ ''-'' @ num_or mx ''?''\<rparr>)"

definition scoreNationality :: "player \<Rightarrow> string list \<Rightarrow> match_score" where
  "scoreNationality p searchNationalities =
     (if \<not> truthy_str (nationality p) then
        \<lparr>score = 0, explanation = ''Player nationality not specified''\<rparr>
      else
        let n = the (nationality p) in
        if list_ex (\<lambda>nat. toLowerCase n = toLowerCase nat) searchNationalities then
          \<lparr>score = weight_nationality, explanation = ''Nationality match: '' @ n\<rparr>
        else if list_ex (\<lambda>nat. str_includes (toLowerCase n) (toLowerCase nat)
                         \<or> str_includes (toLowerCase nat) (toLowerCase n)) searchNationalities then
          \<lparr>score = js_round (of_int weight_nationality * (8 / 10)),
           explanation = ''Nationality partial match: '' @ n\<rparr>
        else
          \<lparr>score = 0,
           explanation = ''Nationality mismatch: '' @ n @ '' vs '' @ join '', '' searchNationalities\<rparr>)"

definition topLeagues :: "string list" where
  "topLeagues = [''Premier League'', ''La Liga'', ''Bundesliga'', ''Serie A'', ''Ligue 1'']"

definition scoreLeague :: "player \<Rightarrow> string list \<Rightarrow> match_score" where
  "scoreLeague p searchLeagues =
     (if \<not> truthy_str (league p) then
        \<lparr>score = 0, explanation = ''Player league not specified''\<rparr>
      else
        let l = the (league p) in
        if list_ex (\<lambda>lg. toLowerCase l = toLowerCase lg) searchLeagues then
          \<lparr>score = weight_league, explanation = ''League match: '' @ l\<rparr>
        else if l \<in> set topLeagues \<and> list_ex (\<lambda>lg. lg \<in> set topLeagues) searchLeagues then
          \<lparr>score = js_round (of_int weight_league * (6 / 10)),
           explanation = ''Similar level league: '' @ l @ '' (top European league)''\<rparr>
        else
          \<lparr>score = 0,
           explanation = ''League mismatch: '' @ l @ '' vs '' @ join '', '' searchLeagues\<rparr>)"

definition scoreMarketValue :: "player \<Rightarrow> num_range \<Rightarrow> match_score" where
  "scoreMarketValue p valueRange =
     (if \<not> truthy_num (marketValueEuros p) then
        \<lparr>score = 0, explanation = ''Player market value not specified''\<rparr>
      else
        let v = the (marketValueEuros p); mn = rmin valueRange; mx = rmax valueRange in
        if truthy_num mn \<and> truthy_num mx \<and> the mn \<le> v \<and> v \<le> the mx then
          \<lparr>score = weight_marketValue,
           explanation = ''Market value within budget: '' @ euro @ formatValue v\<rparr>
        else if truthy_num mx \<and> \<not> truthy_num mn \<and> v \<le> the mx then
          \<lparr>score = weight_marketValue,
           explanation = ''Under budget: '' @ euro @ formatValue v @ '' (max '' @ euro
             @ formatValue (the mx) @ '')''\<rparr>
        else if truthy_num mn \<and> \<not> truthy_num mx \<and> the mn \<le> v then
          \<lparr>score = weight_marketValue,
           explanation = ''Quality player: '' @ euro @ formatValue v @ '' (min '' @ euro
             @ formatValue (the mn) @ '')''\<rparr>
        else if truthy_num mx \<and> the mx < v \<and> (of_int v :: rat) \<le> of_int (the mx) * (12 / 10) then
          \<lparr>score = js_round (of_int weight_marketValue * (6 / 10)),
           explanation = ''Slightly over budget: '' @ euro @ formatValue v @ '' (max '' @ euro
             @ formatValue (the mx) @ '')''\<rparr>
        else
          \<lparr>score = 0, explanation = ''Market value mismatch: '' @ euro @ formatValue v\<rparr>)"

definition goalsPoints :: "js_number \<Rightarrow> int" where
  "goalsPoints goalRatio =
     (if js_ge goalRatio (12 / 10) then 3
      else if js_ge goalRatio (8 / 10) then 2
      else if js_ge goalRatio (5 / 10) then 1
      else 0)"

definition goalsNote :: "js_number \<Rightarrow> int \<Rightarrow> string list" where
  "goalsNote goalRatio g =
     (if js_ge goalRatio (12 / 10) then [''Excellent goals: '' @ show_int g]
      else if js_ge goalRatio (8 / 10) then [''Good goals: '' @ show_int g]
      else if js_ge goalRatio (5 / 10) then [''Average goals: '' @ show_int g]
      else [])"

definition assistsPoints :: "js_number \<Rightarrow> int" where
  "assistsPoints assistRatio =
     (if js_ge assistRatio (12 / 10) then 3
      else if js_ge assistRatio (8 / 10) then 2
      else 0)"

definition assistsNote :: "js_number \<Rightarrow> int \<Rightarrow> string list" where
  "assistsNote assistRatio a =
     (if js_ge assistRatio (12 / 10) then [''Excellent assists: '' @ show_int a]
      else if js_ge assistRatio (8 / 10) then [''Good assists: '' @ show_int a]
      else [])"

definition appearancesPoints :: "int \<Rightarrow> int \<Rightarrow> int" where
  "appearancesPoints apps bench =
     (if bench \<le> apps then 2
      else if (of_int bench :: rat) * (7 / 10) \<le> of_int apps then 1
      else 0)"

definition appearancesNote :: "int \<Rightarrow> int \<Rightarrow> string list" where
  "appearancesNote apps bench =
     (if bench \<le> apps then [''Regular starter: '' @ show_int apps @ '' games'']
      else if (of_int bench :: rat) * (7 / 10) \<le> of_int apps then
        [''Good availability: '' @ show_int apps @ '' games'']
      else [])"

definition scorePerformance :: "player \<Rightarrow> js_error + match_score" where
  "scorePerformance p =
     (case position p of
        JUndefined \<Rightarrow>
          Inr \<lparr>score = 0, explanation = ''Position not specified for performance evaluation''\<rparr>
      | JOther \<Rightarrow> Inl TypeError
      | JString pos \<Rightarrow>
          if pos = [] then
            Inr \<lparr>score = 0, explanation = ''Position not specified for performance evaluation''\<rparr>
          else
            let bm = benchmark_for (toUpperCase pos);
                goalRatio = js_div (goalsThisSeason p) (goals bm);
                assistRatio = js_div (assistsThisSeason p) (assists bm);
                performanceScore =
                  goalsPoints goalRatio + assistsPoints assistRatio
                  + appearancesPoints (appearancesThisSeason p) (appearances bm);
                explanations =
                  goalsNote goalRatio (goalsThisSeason p)
                  @ assistsNote assistRatio (assistsThisSeason p)
                  @ appearancesNote (appearancesThisSeason p) (appearances bm)
            in Inr \<lparr>score = min performanceScore weight_performance,
                    explanation =
                      (if explanations \<noteq> [] then join '', '' explanations
                       else ''Limited performance data'')\<rparr>)"

definition msPerMonth :: int where
  "msPerMonth = 1000 * 60 * 60 * 24 * 30"

definition monthsLeft :: "js_date \<Rightarrow> int \<Rightarrow> int option" where
  \<comment> \<open>\<open>Math.round((expiry.getTime() - now) / (1000 * 60 * 60 * 24 * 30))\<close>; \<open>None\<close> is NaN.\<close>
  "monthsLeft d now =
     (case d of
        InvalidDate \<Rightarrow> None
      | DateAt t \<Rightarrow> Some (js_round (of_int (t - now) / of_int msPerMonth)))"

definition nan_le :: "int option \<Rightarrow> int \<Rightarrow> bool" where
  "nan_le m k = (case m of None \<Rightarrow> False | Some n \<Rightarrow> n \<le> k)"

definition nan_gt :: "int option \<Rightarrow> int \<Rightarrow> bool" where
  "nan_gt m k = (case m of None \<Rightarrow> False | Some n \<Rightarrow> k < n)"

definition show_months :: "int option \<Rightarrow> string" where
  "show_months m = (case m of None \<Rightarrow> ''NaN'' | Some n \<Rightarrow> show_int n)"

definition wantsExpiring :: "advanced_params \<Rightarrow> bool" where
  \<comment> \<open>\<open>searchParams.transferStatus === 'available' || searchParams.contractExpiring\<close>\<close>
  "wantsExpiring searchParams =
     (sp_transferStatus searchParams = Some Available \<or> sp_contractExpiring searchParams = Some True)"

definition scoreContractStatus :: "int \<Rightarrow> player \<Rightarrow> advanced_params \<Rightarrow> match_score" where
  \<comment> \<open>The first argument is the clock reading of \<open>new Date()\<close>.\<close>
  "scoreContractStatus now p searchParams =
     (case contractExpires p of
        None \<Rightarrow> \<lparr>score = 0, explanation = ''Contract expiry date not available''\<rparr>
      | Some d \<Rightarrow>
          let ml = monthsLeft d now in
          if wantsExpiring searchParams \<and> nan_le ml 6 then
            \<lparr>score = weight_contract,
             explanation = ''Contract expires soon: '' @ show_months ml
               @ '' months (potential bargain)''\<rparr>
          else if wantsExpiring searchParams \<and> nan_le ml 12 then
            \<lparr>score = js_round (of_int weight_contract * (8 / 10)),
             explanation = ''Contract expires within a year: '' @ show_months ml @ '' months''\<rparr>
          else if nan_gt ml 24 then
            \<lparr>score = js_round (of_int weight_contract * (1 / 2)),
             explanation = ''Long-term contract: '' @ show_months ml @ '' months remaining''\<rparr>
          else \<lparr>score = 0, explanation = ''Contract status neutral''\<rparr>)"

record breakdown_entry = match_score +
  maxScore :: int
  weight :: int

record detailed_score =
  totalScore :: int
  maxPossibleScore :: int
  percentage :: rat
  breakdown :: "(string \<times> breakdown_entry) list"

definition entry :: "string \<Rightarrow> int \<Rightarrow> match_score \<Rightarrow> string \<times> breakdown_entry" where
  "entry key w m = (key, \<lparr>score = score m, explanation = explanation m, maxScore = w, weight = w\<rparr>)"

definition percentageOf :: "int \<Rightarrow> int \<Rightarrow> rat" where
  \<comment> \<open>\<open>maxPossibleScore > 0 ? (totalScore / maxPossibleScore) * 100 : 0\<close>\<close>
  "percentageOf totalS maxS =
     (if 0 < maxS then of_int totalS / of_int maxS * 100 else 0)"

definition optionalEntry :: "'a option \<Rightarrow> ('a \<Rightarrow> string \<times> breakdown_entry)
    \<Rightarrow> (string \<times> breakdown_entry) list" where
  "optionalEntry x f = (case x of None \<Rightarrow> [] | Some v \<Rightarrow> [f v])"

definition breakdownEntries ::
    "int \<Rightarrow> player \<Rightarrow> advanced_params \<Rightarrow> (string \<times> breakdown_entry) list
      \<Rightarrow> match_score \<Rightarrow> (string \<times> breakdown_entry) list" where
  \<comment> \<open>The breakdown object, in the insertion order of its keys.\<close>
  "breakdownEntries now p searchParams positionPart performanceMatch =
     positionPart
     @ optionalEntry (sp_age searchParams) (\<lambda>r. entry ''age'' weight_age (scoreAge p r))
     @ optionalEntry (sp_nationality searchParams)
         (\<lambda>ns. entry ''nationality'' weight_nationality (scoreNationality p ns))
     @ optionalEntry (sp_league searchParams)
         (\<lambda>ls. entry ''league'' weight_league (scoreLeague p ls))
     @ optionalEntry (sp_marketValue searchParams)
         (\<lambda>r. entry ''marketValue'' weight_marketValue (scoreMarketValue p r))
     @ [entry ''performance'' weight_performance performanceMatch]
     @ (if sp_transferStatus searchParams \<noteq> None \<or> sp_contractExpiring searchParams = Some True
        then [entry ''contract'' weight_contract (scoreContractStatus now p searchParams)]
        else [])"

definition scoreOfBreakdown :: "(string \<times> breakdown_entry) list \<Rightarrow> detailed_score" where
  \<comment> \<open>The running sums \<open>totalScore\<close> and \<open>maxPossibleScore\<close>, and the percentage.\<close>
  "scoreOfBreakdown bd =
     (let totalS = sum_list (map (\<lambda>kv. score (snd kv)) bd);
          maxS = sum_list (map (\<lambda>kv. maxScore (snd kv)) bd)
      in \<lparr>totalScore = totalS, maxPossibleScore = maxS,
          percentage = percentageOf totalS maxS, breakdown = bd\<rparr>)"

definition calculateDetailedScore ::
    "int \<Rightarrow> player option \<Rightarrow> advanced_params \<Rightarrow> js_error + detailed_score" where
  \<comment> \<open>An absent candidate makes the first field access throw. Only the position and the
      performance scoring can throw, both on the position field, so their results are
      taken first.\<close>
  "calculateDetailedScore now candidate searchParams =
     (case candidate of
        None \<Rightarrow> Inl TypeError
      | Some p \<Rightarrow>
          (case (case sp_position searchParams of
                   None \<Rightarrow> Inr []
                 | Some ps \<Rightarrow>
                     (case scorePosition p ps of
                        Inl e \<Rightarrow> Inl e
                      | Inr m \<Rightarrow> Inr [entry ''position'' weight_position m])) of
             Inl e \<Rightarrow> Inl e
           | Inr positionPart \<Rightarrow>
               (case scorePerformance p of
                  Inl e \<Rightarrow> Inl e
                | Inr performanceMatch \<Rightarrow>
                    Inr (scoreOfBreakdown
                           (breakdownEntries now p searchParams positionPart performanceMatch)))))"

section \<open>MatchExplanationService: explanation\<close>

datatype match_strength = Perfect | Good | Partial | Weak

record matched_criterion =
  criterion :: string
  searchValue :: string
  playerValue :: string
  matchStrength :: match_strength
  criterionExplanation :: string

record match_explanation =
  summary :: string
  matchedCriteria :: "matched_criterion list"
  strengthScore :: int
  potentialConcerns :: "string list"
  additionalContext :: string

fun strengthOrder :: "match_strength \<Rightarrow> int" where
  "strengthOrder Perfect = 4"
| "strengthOrder Good = 3"
| "strengthOrder Partial = 2"
| "strengthOrder Weak = 1"

fun js_times :: "js_number \<Rightarrow> rat \<Rightarrow> js_number" where
  \<comment> \<open>Multiplication by a positive finite constant.\<close>
  "js_times (Finite x) k = Finite (x * k)"
| "js_times PosInfinity k = PosInfinity"
| "js_times NegInfinity k = NegInfinity"
| "js_times NaN k = NaN"

definition strengthOf :: "int \<Rightarrow> int \<Rightarrow> match_strength" where
  "strengthOf sc mx =
     (let strengthPercentage = js_times (js_div sc mx) 100 in
      if js_ge strengthPercentage 90 then Perfect
      else if js_ge strengthPercentage 70 then Good
      else if js_ge strengthPercentage 40 then Partial
      else Weak)"

definition getSearchValueForCriterion :: "string \<Rightarrow> advanced_params \<Rightarrow> string" where
  "getSearchValueForCriterion c searchParams =
     (if c = ''position'' then
        (case sp_position searchParams of None \<Rightarrow> [] | Some ps \<Rightarrow> join '', '' ps)
      else if c = ''age'' then
        num_or (case sp_age searchParams of None \<Rightarrow> None | Some r \<Rightarrow> rmin r) ''?'' @ ''-''
        @ num_or (case sp_age searchParams of None \<Rightarrow> None | Some r \<Rightarrow> rmax r) ''?''
      else if c = ''nationality'' then
        (case sp_nationality searchParams of None \<Rightarrow> [] | Some ns \<Rightarrow> join '', '' ns)
      else if c = ''league'' then
        (case sp_league searchParams of None \<Rightarrow> [] | Some ls \<Rightarrow> join '', '' ls)
      else if c = ''marketValue'' then
        euro
        @ formatValue (num_or_zero (case sp_marketValue searchParams of None \<Rightarrow> None | Some r \<Rightarrow> rmin r))
        @ ''-''
        @ formatValue (num_or_zero (case sp_marketValue searchParams of None \<Rightarrow> None | Some r \<Rightarrow> rmax r))
      else ''Various criteria'')"

definition getPlayerValueForCriterion :: "string \<Rightarrow> player \<Rightarrow> string" where
  \<comment> \<open>Reached only after the scoring succeeded, so the position is a string or falsy.\<close>
  "getPlayerValueForCriterion c p =
     (if c = ''position'' then
        (case position p of JString s \<Rightarrow> (if s = [] then ''Unknown'' else s) | _ \<Rightarrow> ''Unknown'')
      else if c = ''age'' then
        (case age p of None \<Rightarrow> ''Unknown'' | Some a \<Rightarrow> show_int a)
      else if c = ''nationality'' then str_or (nationality p) ''Unknown''
      else if c = ''league'' then str_or (league p) ''Unknown''
      else if c = ''marketValue'' then euro @ formatValue (num_or_zero (marketValueEuros p))
      else if c = ''performance'' then
        show_int (goalsThisSeason p) @ ''G, '' @ show_int (assistsThisSeason p) @ ''A''
      else ''N/A'')"

fun insert_by :: "('a \<Rightarrow> 'a \<Rightarrow> int) \<Rightarrow> 'a \<Rightarrow> 'a list \<Rightarrow> 'a list" where
  "insert_by cmp x [] = [x]"
| "insert_by cmp x (y # ys) = (if cmp x y \<le> 0 then x # y # ys else y # insert_by cmp x ys)"

definition js_sort :: "('a \<Rightarrow> 'a \<Rightarrow> int) \<Rightarrow> 'a list \<Rightarrow> 'a list" where
  \<comment> \<open>\<open>Array.prototype.sort\<close> with a comparator: a stable sort.\<close>
  "js_sort cmp xs = foldr (insert_by cmp) xs []"

definition compareStrength :: "matched_criterion \<Rightarrow> matched_criterion \<Rightarrow> int" where
  "compareStrength a b = strengthOrder (matchStrength b) - strengthOrder (matchStrength a)"

definition toCriterion ::
    "player \<Rightarrow> advanced_params \<Rightarrow> string \<times> breakdown_entry \<Rightarrow> matched_criterion" where
  "toCriterion p searchParams kv =
     \<lparr>criterion = capitalize (fst kv),
      searchValue = getSearchValueForCriterion (fst kv) searchParams,
      playerValue = getPlayerValueForCriterion (fst kv) p,
      matchStrength = strengthOf (score (snd kv)) (maxScore (snd kv)),
      criterionExplanation = explanation (snd kv)\<rparr>"

definition generateMatchedCriteria ::
    "player \<Rightarrow> advanced_params \<Rightarrow> detailed_score \<Rightarrow> matched_criterion list" where
  "generateMatchedCriteria p searchParams d =
     js_sort compareStrength
       (map (toCriterion p searchParams) (filter (\<lambda>kv. 0 < score (snd kv)) (breakdown d)))"

definition generateSummary :: "player \<Rightarrow> detailed_score \<Rightarrow> string" where
  "generateSummary p d =
     (let pct = js_round (percentage d);
          topCriteria =
            take 3 (map fst
              (filter (\<lambda>kv. (of_int (maxScore (snd kv)) :: rat) * (7 / 10) \<le> of_int (score (snd kv)))
                 (breakdown d)));
          s = (if 80 \<le> pct then
                 name p @ '' is an excellent match ('' @ show_int pct @ ''%) for your search''
               else if 60 \<le> pct then
                 name p @ '' is a good match ('' @ show_int pct @ ''%) for your requirements''
               else if 40 \<le> pct then
                 name p @ '' partially matches ('' @ show_int pct @ ''%) your criteria''
               else
                 name p @ '' has limited alignment ('' @ show_int pct @ ''%) with your search'')
      in (if topCriteria \<noteq> [] then s @ '', particularly in '' @ join '', '' topCriteria else s)
         @ ''.'')"

definition identifyPotentialConcerns ::
    "player \<Rightarrow> advanced_params \<Rightarrow> detailed_score \<Rightarrow> string list" where
  "identifyPotentialConcerns p searchParams d =
     map (\<lambda>kv. capitalize (fst kv) @ '' doesn't match requirements'')
       (filter (\<lambda>kv. score (snd kv) = 0 \<and> 10 \<le> maxScore (snd kv)) (breakdown d))
     @ (case sp_age searchParams of
          None \<Rightarrow> []
        | Some r \<Rightarrow>
            if truthy_num (age p) then
              (if truthy_num (rmax r) \<and> the (rmax r) + 3 < the (age p)
               then [''Significantly older than preferred''] else [])
              @ (if truthy_num (rmin r) \<and> the (age p) < the (rmin r) - 2
                 then [''Much younger than preferred''] else [])
            else [])
     @ (case sp_marketValue searchParams of
          None \<Rightarrow> []
        | Some r \<Rightarrow>
            if truthy_num (marketValueEuros p) \<and> truthy_num (rmax r)
               \<and> (of_int (the (rmax r)) :: rat) * (3 / 2) < of_int (the (marketValueEuros p))
            then [''Significantly over budget''] else [])
     @ (if appearancesThisSeason p < 10 then [''Limited playing time this season''] else [])"

definition generateAdditionalContext :: "int \<Rightarrow> player \<Rightarrow> explanation_context \<Rightarrow> string" where
  \<comment> \<open>The first argument is the clock reading of \<open>Date.now()\<close>.\<close>
  "generateAdditionalContext now p ctx =
     join ''. ''
       ((if 0 < goalsThisSeason p \<or> 0 < assistsThisSeason p then
           [''This season: '' @ show_int (goalsThisSeason p) @ '' goals, ''
              @ show_int (assistsThisSeason p) @ '' assists in ''
              @ show_int (appearancesThisSeason p) @ '' games'']
         else [])
        @ (case contractExpires p of
             None \<Rightarrow> []
           | Some d \<Rightarrow>
               if nan_le (monthsLeft d now) 12 then
                 [''Contract expires in '' @ show_months (monthsLeft d now)
                    @ '' months - potential transfer opportunity'']
               else [])
        @ (if truthy_str (league p) then [''Currently playing in '' @ the (league p)] else [])
        @ (if resultRank ctx \<le> 5 then
             [''Top '' @ show_int (resultRank ctx) @ '' result out of ''
                @ show_int (totalResults ctx)]
           else []))"

definition generateFallbackExplanation :: "player option \<Rightarrow> js_error + match_explanation" where
  \<comment> \<open>Reading the name of an absent candidate throws.\<close>
  "generateFallbackExplanation candidate =
     (case candidate of
        None \<Rightarrow> Inl TypeError
      | Some p \<Rightarrow>
          Inr \<lparr>summary = name p @ '' matches several of your search criteria'',
               matchedCriteria = [],
               strengthScore = 50,
               potentialConcerns = [''Unable to generate detailed analysis''],
               additionalContext = ''Basic match evaluation available''\<rparr>)"

definition explanationAttempt ::
    "int \<Rightarrow> int \<Rightarrow> player option \<Rightarrow> advanced_params \<Rightarrow> explanation_context
      \<Rightarrow> js_error + match_explanation" where
  \<comment> \<open>The try block of \<open>generateMatchExplanation\<close>. The two clock readings are those of
      the contract scoring (\<open>new Date()\<close>) and of the additional context
      (\<open>Date.now()\<close>).\<close>
  "explanationAttempt nowScore nowContext candidate searchParams ctx =
     (case calculateDetailedScore nowScore candidate searchParams of
        Inl e \<Rightarrow> Inl e
      | Inr d \<Rightarrow>
          (case candidate of
             None \<Rightarrow> Inl TypeError
           | Some p \<Rightarrow>
               Inr \<lparr>summary = generateSummary p d,
                    matchedCriteria = generateMatchedCriteria p searchParams d,
                    strengthScore = js_round (percentage d),
                    potentialConcerns = identifyPotentialConcerns p searchParams d,
                    additionalContext = generateAdditionalContext nowContext p ctx\<rparr>))"

definition generateMatchExplanation ::
    "int \<Rightarrow> int \<Rightarrow> player option \<Rightarrow> advanced_params \<Rightarrow> explanation_context
      \<Rightarrow> js_error + match_explanation" where
  \<comment> \<open>\<open>Inl\<close> is a rejected promise: an exception that leaves the catch handler.\<close>
  "generateMatchExplanation nowScore nowContext candidate searchParams ctx =
     (case explanationAttempt nowScore nowContext candidate searchParams ctx of
        Inr e \<Rightarrow> Inr e
      | Inl err \<Rightarrow> generateFallbackExplanation candidate)"

definition entry_ok :: "string \<times> breakdown_entry \<Rightarrow> bool" where
  \<comment> \<open>A criterion's score lies between 0 and its positive maximum.\<close>
  "entry_ok kv = (0 \<le> score (snd kv) \<and> score (snd kv) \<le> maxScore (snd kv) \<and> 0 < maxScore (snd kv))"

definition byStrength :: "matched_criterion \<Rightarrow> matched_criterion \<Rightarrow> bool" where
  \<comment> \<open>\<open>a\<close> may stand before \<open>b\<close>: its strength is not the lower one.\<close>
  "byStrength a b = (strengthOrder (matchStrength b) \<le> strengthOrder (matchStrength a))"

definition strengthPercentage :: "breakdown_entry \<Rightarrow> rat" where
  "strengthPercentage b = of_int (score b) / of_int (maxScore b) * 100"

definition degradedExplanation :: "player \<Rightarrow> match_explanation" where
  \<comment> \<open>The explanation the catch handler builds for a candidate.\<close>
  "degradedExplanation p =
     \<lparr>summary = name p @ '' matches several of your search criteria'',
      matchedCriteria = [],
      strengthScore = 50,
      potentialConcerns = [''Unable to generate detailed analysis''],
      additionalContext = ''Basic match evaluation available''\<rparr>"

subsection \<open>Sample inputs\<close>

definition defaultParams :: advanced_params where
  \<comment> \<open>No filter supplied; the schema's defaults for sorting and pagination.\<close>
  "defaultParams =
     \<lparr>sp_query = None, sp_name = None, sp_position = None, sp_age = None,
      sp_nationality = None, sp_currentClub = None, sp_league = None, sp_marketValue = None,
      sp_height = None, sp_foot = None, sp_goals = None, sp_assists = None,
      sp_appearances = None, sp_transferStatus = None, sp_contractExpiring = None,
      sp_keywords = None, sp_sortBy = SortRelevance, sp_sortDirection = Desc, sp_page = 1,
      sp_limit = 20, sp_exactMatch = False, sp_includeRetired = False,
      sp_originalQuery = None, sp_parsedIntent = None, sp_priorityFactors = [],
      sp_confidence = None, sp_searchId = None, sp_sessionId = None, sp_userIp = None\<rparr>"

definition sampleContext :: explanation_context where
  "sampleContext =
     \<lparr>searchIntent = ''Find reliable goalkeeper'',
      priorityFactors = [''position'', ''performance''],
      originalQuery = ''experienced goalkeeper'',
      resultRank = 1, totalResults = 6\<rparr>"

definition idleKeeper :: player where
  \<comment> \<open>A goalkeeper with no goals, no assists and 10 appearances.\<close>
  "idleKeeper =
     \<lparr>name = ''Great Keeper'', position = JString ''GK'', age = Some 28,
      nationality = Some ''Germany'', marketValueEuros = None, league = None,
      goalsThisSeason = 0, assistsThisSeason = 0, appearancesThisSeason = 10,
      contractExpires = None\<rparr>"

definition scoringKeeper :: player where
  \<comment> \<open>The same goalkeeper with one goal and one assist.\<close>
  "scoringKeeper = idleKeeper\<lparr>goalsThisSeason := 1, assistsThisSeason := 1\<rparr>"

definition malformedKeeper :: player where
  \<comment> \<open>A record whose position holds a value that is not a string.\<close>
  "malformedKeeper = idleKeeper\<lparr>position := JOther\<rparr>"

definition contractedStriker :: player where
  \<comment> \<open>A striker whose contract expires 13 thirty-day months after time 0.\<close>
  "contractedStriker =
     \<lparr>name = ''Goal Machine'', position = JString ''ST'', age = Some 25,
      nationality = Some ''Argentina'', marketValueEuros = None, league = None,
      goalsThisSeason = 27, assistsThisSeason = 8, appearancesThisSeason = 30,
      contractExpires = Some (DateAt (13 * msPerMonth))\<rparr>"

definition availableParams :: advanced_params where
  "availableParams = defaultParams\<lparr>sp_position := Some [''ST''], sp_transferStatus := Some Available\<rparr>"

definition partialForward :: player where
  \<comment> \<open>A centre forward who matches a search for strikers only in part.\<close>
  "partialForward =
     \<lparr>name = ''Marco Rossi'', position = JString ''CF'', age = Some 27,
      nationality = Some ''Brazil'', marketValueEuros = None, league = None,
      goalsThisSeason = 6, assistsThisSeason = 0, appearancesThisSeason = 10,
      contractExpires = None\<rparr>"

definition strikerParams :: advanced_params where
  "strikerParams =
     defaultParams\<lparr>sp_position := Some [''ST''],
       sp_age := Some \<lparr>rmin = Some 20, rmax = Some 25\<rparr>,
       sp_nationality := Some [''Brazil'']\<rparr>"

section \<open>AIQueryParserService: the classifier's answer and its validation\<close>

text \<open>
  The arguments of the classifier's function call are JSON; numbers are exact rationals.
  \<open>jprop\<close> reads a property of a value that is not null: the last binding of the key in
  an object, and undefined (\<open>None\<close>) on every other value, which has none of the
  properties read here.
\<close>

datatype json =
  JNull | JBool bool | JNum rat | JStr string | JArr "json list" | JObj "(string \<times> json) list"

definition jprop :: "json \<Rightarrow> string \<Rightarrow> json option" where
  "jprop v k = (case v of JObj kvs \<Rightarrow> map_of (rev kvs) k | _ \<Rightarrow> None)"

definition truthy :: "json option \<Rightarrow> bool" where
  "truthy v =
     (case v of
        None \<Rightarrow> False
      | Some JNull \<Rightarrow> False
      | Some (JBool b) \<Rightarrow> b
      | Some (JNum n) \<Rightarrow> n \<noteq> 0
      | Some (JStr s) \<Rightarrow> s \<noteq> []
      | Some (JArr xs) \<Rightarrow> True
      | Some (JObj kvs) \<Rightarrow> True)"

record rat_range =
  qmin :: "rat option"
  qmax :: "rat option"

text \<open>\<open>SearchParameters\<close>, with the height range that the fallback parser adds.\<close>

record search_parameters =
  q_position :: "string list option"
  q_age :: "rat_range option"
  q_nationality :: "string list option"
  q_league :: "string list option"
  q_marketValue :: "rat_range option"
  q_height :: "rat_range option"
  q_transferStatus :: "transfer_status option"
  q_keywords :: "string list option"
  q_originalQuery :: string
  q_parsedIntent :: json
  q_priorityFactors :: "json list"

definition validPositions :: "string list" where
  "validPositions =
     [''GK'', ''CB'', ''LB'', ''RB'', ''LWB'', ''RWB'', ''CDM'', ''CM'', ''CAM'', ''LM'', ''RM'',
      ''LW'', ''RW'', ''ST'', ''CF'']"

fun upperAll :: "json list \<Rightarrow> js_error + string list" where
  \<comment> \<open>\<open>.map(p => p.toUpperCase())\<close>: an element that is not a string throws.\<close>
  "upperAll [] = Inr []"
| "upperAll (JStr s # xs) =
     (case upperAll xs of Inl e \<Rightarrow> Inl e | Inr ys \<Rightarrow> Inr (toUpperCase s # ys))"
| "upperAll (v # xs) = Inl TypeError"

fun onlyStrings :: "json list \<Rightarrow> string list" where
  \<comment> \<open>\<open>.filter(x => typeof x === 'string')\<close>\<close>
  "onlyStrings [] = []"
| "onlyStrings (JStr s # xs) = s # onlyStrings xs"
| "onlyStrings (v # xs) = onlyStrings xs"

definition stringArray :: "json option \<Rightarrow> string list option" where
  "stringArray v = (case v of Some (JArr xs) \<Rightarrow> Some (onlyStrings xs) | _ \<Rightarrow> None)"

definition numberWhere :: "json option \<Rightarrow> (rat \<Rightarrow> bool) \<Rightarrow> rat option" where
  \<comment> \<open>\<open>typeof v === 'number'\<close> and the bound checks.\<close>
  "numberWhere v ok = (case v of Some (JNum n) \<Rightarrow> if ok n then Some n else None | _ \<Rightarrow> None)"

definition truthy_rat :: "rat option \<Rightarrow> bool" where
  "truthy_rat x = (case x of None \<Rightarrow> False | Some n \<Rightarrow> n \<noteq> 0)"

definition rangeWhere :: "json option \<Rightarrow> (rat \<Rightarrow> bool) \<Rightarrow> rat_range option" where
  \<comment> \<open>The age and the market value blocks: each bound is kept when it is a number that
      passes the check, and the range is kept when one of its bounds is truthy. A truthy
      value of type object without the two properties (an array) gives no range.\<close>
  "rangeWhere v ok =
     (case v of
        Some (JObj kvs) \<Rightarrow>
          let r = \<lparr>qmin = numberWhere (jprop (JObj kvs) ''min'') ok,
                   qmax = numberWhere (jprop (JObj kvs) ''max'') ok\<rparr>
          in if truthy_rat (qmin r) \<or> truthy_rat (qmax r) then Some r else None
      | _ \<Rightarrow> None)"

definition transferStatusOf :: "json option \<Rightarrow> transfer_status option" where
  "transferStatusOf v =
     (if v = Some (JStr ''available'') then Some Available
      else if v = Some (JStr ''contract_ending'') then Some ContractEnding
      else if v = Some (JStr ''any'') then Some AnyStatus
      else None)"

definition validateSearchParameters :: "json \<Rightarrow> js_error + search_parameters" where
  "validateSearchParameters params =
     (if params = JNull then Inl TypeError
      else
        case (case jprop params ''position'' of
                Some (JArr ps) \<Rightarrow>
                  (case upperAll ps of
                     Inl e \<Rightarrow> Inl e
                   | Inr us \<Rightarrow> Inr (Some (filter (\<lambda>p. p \<in> set validPositions) us)))
              | _ \<Rightarrow> Inr None) of
          Inl e \<Rightarrow> Inl e
        | Inr pos \<Rightarrow>
            Inr \<lparr>q_position = pos,
                 q_age = rangeWhere (jprop params ''age'') (\<lambda>n. 16 \<le> n \<and> n \<le> 45),
                 q_nationality = stringArray (jprop params ''nationality''),
                 q_league = stringArray (jprop params ''league''),
                 q_marketValue = rangeWhere (jprop params ''marketValue'') (\<lambda>n. 0 \<le> n),
                 q_height = None,
                 q_transferStatus = transferStatusOf (jprop params ''transferStatus''),
                 q_keywords = stringArray (jprop params ''keywords''),
                 q_originalQuery = [],
                 q_parsedIntent =
                   (if truthy (jprop params ''parsedIntent'') then the (jprop params ''parsedIntent'')
                    else JStr ''Football player search''),
                 q_priorityFactors =
                   (case jprop params ''priorityFactors'' of Some (JArr fs) \<Rightarrow> fs | _ \<Rightarrow> [])\<rparr>)"

definition calculateConfidence :: "search_parameters \<Rightarrow> rat" where
  "calculateConfidence params =
     min (5 / 10
          + (case q_position params of Some (p # ps) \<Rightarrow> 2 / 10 | _ \<Rightarrow> 0)
          + (if q_age params \<noteq> None then 15 / 100 else 0)
          + (case q_nationality params of Some (n # ns) \<Rightarrow> 1 / 10 | _ \<Rightarrow> 0)
          + (case q_league params of Some (l # ls) \<Rightarrow> 1 / 10 | _ \<Rightarrow> 0)
          + (if q_marketValue params \<noteq> None then 1 / 10 else 0)
          + (if q_priorityFactors params \<noteq> [] then 1 / 10 else 0)) 1"

section \<open>AIQueryParserService: the fallback parser\<close>

definition is_space :: "char \<Rightarrow> bool" where
  "is_space c = (c \<in> set [CHR '' '', CHR 0x09, CHR 0x0A, CHR 0x0B, CHR 0x0C, CHR 0x0D])"

definition is_digit :: "char \<Rightarrow> bool" where
  "is_digit c = (c \<in> set ''0123456789'')"

definition trim :: "string \<Rightarrow> string" where
  "trim s = rev (dropWhile is_space (rev (dropWhile is_space s)))"

fun dedupe :: "'a list \<Rightarrow> 'a list" where
  \<comment> \<open>\<open>[...new Set(xs)]\<close>: the first occurrence of each element, in order.\<close>
  "dedupe [] = []"
| "dedupe (x # xs) = x # dedupe (filter (\<lambda>y. y \<noteq> x) xs)"

fun first_match :: "(string \<Rightarrow> 'a option) \<Rightarrow> string \<Rightarrow> 'a option" where
  \<comment> \<open>\<open>String.prototype.match\<close> without the global flag: the leftmost position at which
      the pattern matches.\<close>
  "first_match m [] = m []"
| "first_match m (c # cs) = (case m (c # cs) of Some r \<Rightarrow> Some r | None \<Rightarrow> first_match m cs)"

definition digitsThen :: "string \<Rightarrow> (string \<times> string) option" where
  \<comment> \<open>\<open>(\d+)\<close> at the start of the text: the digits and the rest.\<close>
  "digitsThen s =
     (let d = takeWhile is_digit s in if d = [] then None else Some (d, dropWhile is_digit s))"

definition skipSpaces :: "string \<Rightarrow> string" where
  \<comment> \<open>\<open>[\s]*\<close>\<close>
  "skipSpaces s = dropWhile is_space s"

definition literalThen :: "string \<Rightarrow> string \<Rightarrow> string option" where
  \<comment> \<open>A literal at the start of the text: the rest.\<close>
  "literalThen lit s = (if starts_with s lit then Some (drop (length lit) s) else None)"

definition ageRangeAt :: "string \<Rightarrow> (string \<times> string) option" where
  \<comment> \<open>\<open>/(\d+)[\s]*-[\s]*(\d+)/\<close> at the start of the text.\<close>
  "ageRangeAt s =
     (case digitsThen s of
        None \<Rightarrow> None
      | Some (d1, r1) \<Rightarrow>
          (case literalThen ''-'' (skipSpaces r1) of
             None \<Rightarrow> None
           | Some r2 \<Rightarrow>
               (case digitsThen (skipSpaces r2) of
                  None \<Rightarrow> None
                | Some (d2, r3) \<Rightarrow> Some (d1, d2))))"

definition wordNumberAt :: "string \<Rightarrow> string \<Rightarrow> string option" where
  \<comment> \<open>\<open>/word[\s]*(\d+)/\<close> at the start of the text.\<close>
  "wordNumberAt w s =
     (case literalThen w s of
        None \<Rightarrow> None
      | Some r \<Rightarrow> (case digitsThen (skipSpaces r) of None \<Rightarrow> None | Some (d, r') \<Rightarrow> Some d))"

definition yearsOldAt :: "string \<Rightarrow> string option" where
  \<comment> \<open>\<open>/(\d+)[\s]*years?[\s]*old/\<close> at the start of the text.\<close>
  "yearsOldAt s =
     (case digitsThen s of
        None \<Rightarrow> None
      | Some (d, r1) \<Rightarrow>
          (case literalThen ''year'' (skipSpaces r1) of
             None \<Rightarrow> None
           | Some r2 \<Rightarrow>
               let r3 = (case literalThen ''s'' r2 of Some r \<Rightarrow> r | None \<Rightarrow> r2) in
               (case literalThen ''old'' (skipSpaces r3) of None \<Rightarrow> None | Some r4 \<Rightarrow> Some d)))"

definition singleAgeAt :: "string \<Rightarrow> string option" where
  \<comment> \<open>The alternatives of the single-age pattern, in their order.\<close>
  "singleAgeAt s =
     (case wordNumberAt ''under'' s of Some d \<Rightarrow> Some d | None \<Rightarrow>
      (case wordNumberAt ''below'' s of Some d \<Rightarrow> Some d | None \<Rightarrow>
       (case wordNumberAt ''over'' s of Some d \<Rightarrow> Some d | None \<Rightarrow>
        (case wordNumberAt ''above'' s of Some d \<Rightarrow> Some d | None \<Rightarrow> yearsOldAt s))))"

definition decimalThen :: "string \<Rightarrow> (string \<times> string) option" where
  \<comment> \<open>\<open>(\d+(?:\.\d+)?)\<close> at the start of the text.\<close>
  "decimalThen s =
     (case digitsThen s of
        None \<Rightarrow> None
      | Some (d, r) \<Rightarrow>
          (case literalThen ''.'' r of
             None \<Rightarrow> Some (d, r)
           | Some r1 \<Rightarrow>
               (case digitsThen r1 of
                  None \<Rightarrow> Some (d, r)
                | Some (f, r2) \<Rightarrow> Some (d @ ''.'' @ f, r2))))"

definition metresAt :: "string \<Rightarrow> string option" where
  \<comment> \<open>\<open>/(\d+(?:\.\d+)?)[\s]*m/\<close> at the start of the text. When the longest number is not
      followed by \<open>m\<close>, no shorter one is.\<close>
  "metresAt s =
     (case decimalThen s of
        None \<Rightarrow> None
      | Some (n, r) \<Rightarrow> (case literalThen ''m'' (skipSpaces r) of None \<Rightarrow> None | Some r' \<Rightarrow> Some n))"

definition heightAt :: "string \<Rightarrow> (string \<times> bool) option" where
  \<comment> \<open>The alternatives of the height pattern, in their order; the flag says that the
      third group (centimetres) matched.\<close>
  "heightAt s =
     (case metresAt s of
        Some n \<Rightarrow> Some (n, False)
      | None \<Rightarrow>
          (case (case literalThen ''over'' s of None \<Rightarrow> None | Some r \<Rightarrow> metresAt (skipSpaces r)) of
             Some n \<Rightarrow> Some (n, False)
           | None \<Rightarrow>
               (case digitsThen s of
                  None \<Rightarrow> None
                | Some (d, r) \<Rightarrow>
                    (case literalThen ''cm'' (skipSpaces r) of
                       None \<Rightarrow> None
                     | Some r' \<Rightarrow> Some (d, True)))))"

definition digit_value :: "char \<Rightarrow> nat" where
  "digit_value c = of_char c - 48"

definition parseInt :: "string \<Rightarrow> rat" where
  \<comment> \<open>\<open>parseInt\<close> of a string of decimal digits.\<close>
  "parseInt ds = of_nat (foldl (\<lambda>acc c. 10 * acc + digit_value c) 0 ds)"

definition parseFloat :: "string \<Rightarrow> rat" where
  \<comment> \<open>\<open>parseFloat\<close> of digits with an optional fraction, as the exact decimal.\<close>
  "parseFloat s =
     (let w = takeWhile is_digit s; f = takeWhile is_digit (drop (Suc (length w)) s)
      in parseInt w + parseInt f / 10 ^ length f)"

definition positionMap :: "(string \<times> string list) list" where
  "positionMap =
     [(''gk'', [''GK'']), (''goalkeeper'', [''GK'']), (''cb'', [''CB'']),
      (''center-back'', [''CB'']), (''lb'', [''LB'']), (''left-back'', [''LB'']),
      (''rb'', [''RB'']), (''right-back'', [''RB'']), (''cm'', [''CM'']),
      (''midfielder'', [''CM'']), (''cdm'', [''CDM'']), (''cam'', [''CAM'']),
      (''lw'', [''LW'']), (''left-wing'', [''LW'']), (''rw'', [''RW'']),
      (''right-wing'', [''RW'']), (''st'', [''ST'']), (''striker'', [''ST'', ''CF'']),
      (''cf'', [''CF'']), (''center-forward'', [''CF''])]"

definition nationalities :: "string list" where
  "nationalities =
     [''brazil'', ''argentina'', ''france'', ''england'', ''spain'', ''germany'', ''italy'',
      ''portugal'']"

definition leagueMap :: "(string \<times> string) list" where
  "leagueMap =
     [(''premier league'', ''Premier League''), (''la liga'', ''La Liga''),
      (''bundesliga'', ''Bundesliga''), (''serie a'', ''Serie A''), (''ligue 1'', ''Ligue 1'')]"

function split_ws :: "string \<Rightarrow> string list" where
  \<comment> \<open>\<open>split(/\s+/)\<close>: the pieces between the runs of white space, empty pieces at the
      ends included.\<close>
  "split_ws s =
     (let w = takeWhile (\<lambda>c. \<not> is_space c) s; r = dropWhile (\<lambda>c. \<not> is_space c) s
      in if r = [] then [w] else w # split_ws (dropWhile is_space (tl r)))"
  by pat_completeness auto
termination
proof (relation "measure length")
  show "wf (measure length)" by simp
next
  fix s :: string and w r
  assume r: "r = dropWhile (\<lambda>c. \<not> is_space c) s" and ne: "r \<noteq> []"
  have "length (dropWhile is_space (tl r)) \<le> length (tl r)" by (rule length_dropWhile_le)
  also have "length (tl r) < length r" using ne by (cases r) simp_all
  also have "length r \<le> length s" unfolding r by (rule length_dropWhile_le)
  finally show "(dropWhile is_space (tl r), s) \<in> measure length" by simp
qed

definition foundPositionsOf :: "string \<Rightarrow> string list" where
  "foundPositionsOf lowerQuery =
     concat (map snd (filter (\<lambda>kv. str_includes lowerQuery (fst kv)) positionMap))"

definition foundNationalitiesOf :: "string \<Rightarrow> string list" where
  "foundNationalitiesOf lowerQuery = filter (\<lambda>nat. str_includes lowerQuery nat) nationalities"

definition foundLeaguesOf :: "string \<Rightarrow> string list" where
  "foundLeaguesOf lowerQuery =
     map snd (filter (\<lambda>kv. str_includes lowerQuery (fst kv)) leagueMap)"

definition extractAge :: "string \<Rightarrow> rat_range option" where
  "extractAge lowerQuery =
     (case first_match ageRangeAt lowerQuery of
        Some (d1, d2) \<Rightarrow> Some \<lparr>qmin = Some (parseInt d1), qmax = Some (parseInt d2)\<rparr>
      | None \<Rightarrow>
          (case first_match singleAgeAt lowerQuery of
             None \<Rightarrow> None
           | Some ageStr \<Rightarrow>
               let a = parseInt ageStr in
               if str_includes lowerQuery ''under'' \<or> str_includes lowerQuery ''below'' then
                 Some \<lparr>qmin = None, qmax = Some a\<rparr>
               else if str_includes lowerQuery ''over'' \<or> str_includes lowerQuery ''above'' then
                 Some \<lparr>qmin = Some a, qmax = None\<rparr>
               else Some \<lparr>qmin = Some (a - 2), qmax = Some (a + 2)\<rparr>))"

definition extractHeight :: "string \<Rightarrow> rat_range option" where
  "extractHeight lowerQuery =
     (case first_match heightAt lowerQuery of
        None \<Rightarrow> None
      | Some (heightStr, isCm) \<Rightarrow>
          let h = (if isCm then parseFloat heightStr else parseFloat heightStr * 100) in
          if str_includes lowerQuery ''over'' \<or> str_includes lowerQuery ''above'' then
            Some \<lparr>qmin = Some h, qmax = None\<rparr>
          else Some \<lparr>qmin = Some (h - 5), qmax = Some (h + 5)\<rparr>)"

definition extractKeywords :: "string \<Rightarrow> string list" where
  "extractKeywords query =
     (let lowerQuery = toLowerCase query in
      filter
        (\<lambda>w. \<not> list_ex (\<lambda>pos. str_includes (toLowerCase w) pos) (foundPositionsOf lowerQuery)
            \<and> \<not> list_ex (\<lambda>nat. str_includes (toLowerCase w) nat) (foundNationalitiesOf lowerQuery)
            \<and> \<not> list_ex (\<lambda>lg. str_includes (toLowerCase w) lg) (foundLeaguesOf lowerQuery)
            \<and> \<not> list_ex is_digit w)
        (filter (\<lambda>w. 2 < length w) (split_ws query)))"

definition parseWithFallback :: "string \<Rightarrow> search_parameters" where
  "parseWithFallback query =
     (let lowerQuery = toLowerCase query;
          foundPositions = foundPositionsOf lowerQuery;
          ageR = extractAge lowerQuery;
          foundNationalities = foundNationalitiesOf lowerQuery;
          foundLeagues = foundLeaguesOf lowerQuery;
          heightR = extractHeight lowerQuery
      in \<lparr>q_position = (if foundPositions \<noteq> [] then Some (dedupe foundPositions) else None),
          q_age = ageR,
          q_nationality =
            (if foundNationalities \<noteq> [] then Some (map capitalize foundNationalities) else None),
          q_league = (if foundLeagues \<noteq> [] then Some foundLeagues else None),
          q_marketValue = None,
          q_height = heightR,
          q_transferStatus = None,
          q_keywords = Some (extractKeywords query),
          q_originalQuery = query,
          q_parsedIntent = JStr ''Basic keyword search (fallback parsing)'',
          q_priorityFactors =
            (if foundPositions \<noteq> [] then [JStr ''position''] else [])
            @ (if ageR \<noteq> None then [JStr ''age''] else [])
            @ (if foundNationalities \<noteq> [] then [JStr ''nationality''] else [])
            @ (if foundLeagues \<noteq> [] then [JStr ''league''] else [])
            @ (if heightR \<noteq> None then [JStr ''height''] else [])\<rparr>)"

declare split_ws.simps [simp del]

section \<open>AIQueryParserService: cache, retries and parseQuery\<close>

text \<open>
  The service's state is its cache (a \<open>Map\<close>, in insertion order) and its usage
  counters; \<open>classifierCalls\<close> is instrumentation of the model: it counts the calls of
  \<open>openai.chat.completions.create\<close>. What a call of \<open>parseQuery\<close> takes from outside
  is its environment: the readings of \<open>Date.now()\<close> at its start, at the cache lookup, at
  the cache store and at its end, and the outcome of the k-th classifier request it makes.
  A request is rejected or completes with a function call (its name and the result of
  \<open>JSON.parse\<close> on its arguments, \<open>None\<close> when that throws) and the total tokens of
  its usage. Calls are sequential; the waiting between retries is not modelled.
\<close>

record cache_entry =
  ce_result :: search_parameters
  ce_timestamp :: int
  ce_confidence :: rat

record usage_stats =
  totalQueries :: int
  cacheHits :: int
  fallbackCount :: int
  totalTokens :: int
  processingTimes :: "int list"

record parser_state =
  cache :: "(string \<times> cache_entry) list"
  usageStats :: usage_stats
  classifierCalls :: nat

record parsed_query =
  searchParameters :: search_parameters
  confidence :: rat
  fallbackUsed :: bool
  processingTime :: int
  cacheHit :: "bool option"
  usage :: "int option"

datatype completion = Rejected | Completed "(string \<times> json option) option" "int option"

record call_env =
  t_start :: int
  t_lookup :: int
  t_store :: int
  t_end :: int
  completions :: "nat \<Rightarrow> completion"

definition cacheMaxAge :: int where
  "cacheMaxAge = 24 * 60 * 60 * 1000"

definition maxRetries :: nat where
  "maxRetries = 3"

definition normalize :: "string \<Rightarrow> string" where
  \<comment> \<open>\<open>query.toLowerCase().trim()\<close>\<close>
  "normalize query = trim (toLowerCase query)"

definition getCachedResult :: "int \<Rightarrow> (string \<times> cache_entry) list \<Rightarrow> string \<Rightarrow> cache_entry option" where
  "getCachedResult now c query =
     (case map_of c (normalize query) of
        Some cached \<Rightarrow> if now - ce_timestamp cached < cacheMaxAge then Some cached else None
      | None \<Rightarrow> None)"

definition cacheResult ::
    "int \<Rightarrow> (string \<times> cache_entry) list \<Rightarrow> string \<Rightarrow> search_parameters \<Rightarrow> rat
      \<Rightarrow> (string \<times> cache_entry) list" where
  "cacheResult now c query r conf =
     AList.update (normalize query) \<lparr>ce_result = r, ce_timestamp = now, ce_confidence = conf\<rparr> c"

definition cleanCache :: "int \<Rightarrow> parser_state \<Rightarrow> parser_state" where
  "cleanCache now st =
     st\<lparr>cache := filter (\<lambda>kv. \<not> cacheMaxAge < now - ce_timestamp (snd kv)) (cache st)\<rparr>"

definition clearCache :: "parser_state \<Rightarrow> parser_state" where
  "clearCache st = st\<lparr>cache := []\<rparr>"

definition initialState :: parser_state where
  "initialState =
     \<lparr>cache = [],
      usageStats = \<lparr>totalQueries = 0, cacheHits = 0, fallbackCount = 0, totalTokens = 0,
                    processingTimes = []\<rparr>,
      classifierCalls = 0\<rparr>"

definition attemptOnce :: "completion \<Rightarrow> js_error + search_parameters \<times> int option" where
  \<comment> \<open>The body of the try block of one attempt.\<close>
  "attemptOnce c =
     (case c of
        Rejected \<Rightarrow> Inl ApiError
      | Completed functionCall u \<Rightarrow>
          (case functionCall of
             None \<Rightarrow> Inl NoFunctionCall
           | Some (nm, arguments) \<Rightarrow>
               if nm \<noteq> ''parse_search_query'' then Inl NoFunctionCall
               else
                 (case arguments of
                    None \<Rightarrow> Inl SyntaxError
                  | Some parsed \<Rightarrow>
                      (case validateSearchParameters parsed of
                         Inl e \<Rightarrow> Inl e
                       | Inr validated \<Rightarrow> Inr (validated, u)))))"

function parseWithAIFunctionCalling ::
    "(nat \<Rightarrow> completion) \<Rightarrow> nat \<Rightarrow> parser_state
      \<Rightarrow> (js_error + search_parameters \<times> int option) \<times> parser_state" where
  \<comment> \<open>The retry loop, from the given value of \<open>retries\<close>.\<close>
  "parseWithAIFunctionCalling cs retries st =
     (if retries < maxRetries then
        let st1 = st\<lparr>classifierCalls := Suc (classifierCalls st)\<rparr> in
        case attemptOnce (cs retries) of
          Inr (validated, u) \<Rightarrow>
            (Inr (validated, u),
             st1\<lparr>usageStats := (usageStats st1)
                   \<lparr>totalTokens := totalTokens (usageStats st1) + num_or_zero u\<rparr>\<rparr>)
        | Inl err \<Rightarrow>
            if maxRetries \<le> Suc retries then (Inl err, st1)
            else parseWithAIFunctionCalling cs (Suc retries) st1
      else (Inl AllRetriesFailed, st))"
  by pat_completeness auto
termination
  by (relation "measure (\<lambda>(cs, retries, st). maxRetries - retries)") auto

declare parseWithAIFunctionCalling.simps [simp del]

definition recordTime :: "int \<Rightarrow> parser_state \<Rightarrow> parser_state" where
  "recordTime pt st =
     st\<lparr>usageStats := (usageStats st)\<lparr>processingTimes := processingTimes (usageStats st) @ [pt]\<rparr>\<rparr>"

definition fallbackPath :: "call_env \<Rightarrow> string \<Rightarrow> parser_state \<Rightarrow> parsed_query \<times> parser_state" where
  \<comment> \<open>The catch handler of \<open>parseQuery\<close>.\<close>
  "fallbackPath env freeText st =
     (let st1 = st\<lparr>usageStats := (usageStats st)
                    \<lparr>fallbackCount := fallbackCount (usageStats st) + 1\<rparr>\<rparr>;
          pt = t_end env - t_start env
      in (\<lparr>searchParameters = parseWithFallback freeText,
           confidence = 6 / 10,
           fallbackUsed = True,
           processingTime = pt,
           cacheHit = None,
           usage = None\<rparr>,
          recordTime pt st1))"

definition parseQuery :: "call_env \<Rightarrow> string \<Rightarrow> parser_state \<Rightarrow> parsed_query \<times> parser_state" where
  "parseQuery env freeText st =
     (let st0 = st\<lparr>usageStats := (usageStats st)
                    \<lparr>totalQueries := totalQueries (usageStats st) + 1\<rparr>\<rparr>;
          pt = t_end env - t_start env
      in case getCachedResult (t_lookup env) (cache st0) freeText of
           Some cached \<Rightarrow>
             (\<lparr>searchParameters = (ce_result cached)\<lparr>q_originalQuery := freeText\<rparr>,
               confidence = ce_confidence cached,
               fallbackUsed = False,
               processingTime = pt,
               cacheHit = Some True,
               usage = None\<rparr>,
              recordTime pt
                (st0\<lparr>usageStats := (usageStats st0)
                       \<lparr>cacheHits := cacheHits (usageStats st0) + 1\<rparr>\<rparr>))
         | None \<Rightarrow>
             if length (trim freeText) \<le> 1 then fallbackPath env freeText st0
             else
               (case parseWithAIFunctionCalling (completions env) 0 st0 of
                  (Inr (params, u), st1) \<Rightarrow>
                    let conf = calculateConfidence params;
                        st2 = st1\<lparr>cache := cacheResult (t_store env) (cache st1) freeText params conf\<rparr>
                    in (\<lparr>searchParameters = params\<lparr>q_originalQuery := freeText\<rparr>,
                         confidence = conf,
                         fallbackUsed = False,
                         processingTime = pt,
                         cacheHit = None,
                         usage = u\<rparr>,
                        recordTime pt st2)
                | (Inl err, st1) \<Rightarrow> fallbackPath env freeText st1))"

inductive reachable :: "parser_state \<Rightarrow> bool" where
  \<comment> \<open>The states of a service instance: constructed, then used through its public methods
      and its periodic cache sweep.\<close>
  fresh: "reachable initialState"
| parsed: "reachable st \<Longrightarrow> reachable (snd (parseQuery env freeText st))"
| swept: "reachable st \<Longrightarrow> reachable (cleanCache now st)"
| cleared: "reachable st \<Longrightarrow> reachable (clearCache st)"

definition rangeOk :: "rat_range option \<Rightarrow> bool" where
  \<comment> \<open>The range invariant of one field: when both bounds are present, min is at most max.\<close>
  "rangeOk r =
     (case r of
        None \<Rightarrow> True
      | Some x \<Rightarrow>
          (case qmin x of
             None \<Rightarrow> True
           | Some a \<Rightarrow> (case qmax x of None \<Rightarrow> True | Some b \<Rightarrow> a \<le> b)))"

definition rangeInvariant :: "search_parameters \<Rightarrow> bool" where
  "rangeInvariant sp = (rangeOk (q_age sp) \<and> rangeOk (q_marketValue sp) \<and> rangeOk (q_height sp))"

definition emptyFallback :: "string \<Rightarrow> search_parameters" where
  \<comment> \<open>What the fallback parser returns when it extracts nothing.\<close>
  "emptyFallback query =
     \<lparr>q_position = None, q_age = None, q_nationality = None, q_league = None,
      q_marketValue = None, q_height = None, q_transferStatus = None, q_keywords = Some [],
      q_originalQuery = query,
      q_parsedIntent = JStr ''Basic keyword search (fallback parsing)'',
      q_priorityFactors = []\<rparr>"

subsection \<open>Sample environments\<close>

definition unavailable :: call_env where
  \<comment> \<open>Every request to the classifier is rejected.\<close>
  "unavailable = \<lparr>t_start = 0, t_lookup = 0, t_store = 0, t_end = 0, completions = (\<lambda>k. Rejected)\<rparr>"

definition invertedAgeAnswer :: json where
  "invertedAgeAnswer =
     JObj [(''parsedIntent'', JStr ''Find experienced players''),
           (''age'', JObj [(''min'', JNum 40), (''max'', JNum 20)]),
           (''priorityFactors'', JArr [JStr ''age''])]"

definition answering :: "json \<Rightarrow> call_env" where
  \<comment> \<open>The classifier answers every request with the given arguments.\<close>
  "answering args =
     \<lparr>t_start = 0, t_lookup = 0, t_store = 0, t_end = 0,
      completions = (\<lambda>k. Completed (Some (''parse_search_query'', Some args)) (Some 100))\<rparr>"

definition strikerAnswer :: json where
  "strikerAnswer =
     JObj [(''parsedIntent'', JStr ''Find young Brazilian striker players''),
           (''position'', JArr [JStr ''ST'', JStr ''CF'']),
           (''age'', JObj [(''min'', JNum 18), (''max'', JNum 25)]),
           (''nationality'', JArr [JStr ''Brazil'']),
           (''priorityFactors'', JArr [JStr ''position'', JStr ''age'', JStr ''nationality''])]"

definition solid :: "string \<Rightarrow> nat" where
  \<comment> \<open>The number of characters that are not white space.\<close>
  "solid s = length (filter (\<lambda>c. \<not> is_space c) s)"

definition keysLong :: "parser_state \<Rightarrow> bool" where
  \<comment> \<open>Every key of the cache has more than one character.\<close>
  "keysLong st = list_all (\<lambda>kv. 1 < length (fst kv)) (cache st)"

section \<open>Properties of the match scoring\<close>

lemmas weight_defs =
  weight_position_def weight_age_def weight_nationality_def weight_league_def
  weight_marketValue_def weight_performance_def weight_contract_def

lemma floor_rat_divide_numeral:
  "\<lfloor>(numeral a :: rat) / numeral b\<rfloor> = numeral a div numeral b"
  using floor_divide_of_int_eq [of "numeral a" "numeral b", where ?'a = rat] by simp

lemma scorePosition_range:
  "scorePosition p ps = Inr m \<Longrightarrow> 0 \<le> score m \<and> score m \<le> weight_position"
  by (auto simp: scorePosition_def js_round_def floor_rat_divide_numeral Let_def
      weight_position_def split: js_field.splits if_splits)

lemma scoreAge_range: "0 \<le> score (scoreAge p r) \<and> score (scoreAge p r) \<le> weight_age"
  by (simp add: scoreAge_def js_round_def floor_rat_divide_numeral Let_def weight_age_def)

lemma scoreNationality_range:
  "0 \<le> score (scoreNationality p ns) \<and> score (scoreNationality p ns) \<le> weight_nationality"
  by (simp add: scoreNationality_def js_round_def floor_rat_divide_numeral Let_def
      weight_nationality_def)

lemma scoreLeague_range:
  "0 \<le> score (scoreLeague p ls) \<and> score (scoreLeague p ls) \<le> weight_league"
  by (simp add: scoreLeague_def js_round_def floor_rat_divide_numeral Let_def weight_league_def)

lemma scoreMarketValue_range:
  "0 \<le> score (scoreMarketValue p r) \<and> score (scoreMarketValue p r) \<le> weight_marketValue"
  by (simp add: scoreMarketValue_def js_round_def floor_rat_divide_numeral Let_def
      weight_marketValue_def)

lemma scoreContractStatus_range:
  "0 \<le> score (scoreContractStatus now p sp)
   \<and> score (scoreContractStatus now p sp) \<le> weight_contract"
  by (simp add: scoreContractStatus_def js_round_def floor_rat_divide_numeral Let_def
      weight_contract_def split: option.splits)

lemma scorePerformance_range:
  "scorePerformance p = Inr m \<Longrightarrow> 0 \<le> score m \<and> score m \<le> weight_performance"
  by (auto simp: scorePerformance_def Let_def weight_performance_def goalsPoints_def
      assistsPoints_def appearancesPoints_def split: js_field.splits if_splits)

lemma scorePerformance_total:
  "position p \<noteq> JOther \<Longrightarrow> \<exists>m. scorePerformance p = Inr m"
  by (cases "position p") (simp_all add: scorePerformance_def Let_def)

lemma scorePosition_total:
  "position p \<noteq> JOther \<Longrightarrow> \<exists>m. scorePosition p ps = Inr m"
  by (cases "position p") (simp_all add: scorePosition_def Let_def)

lemma entry_ok_entry:
  "0 \<le> score m \<Longrightarrow> score m \<le> w \<Longrightarrow> 0 < w \<Longrightarrow> entry_ok (entry k w m)"
  by (simp add: entry_ok_def entry_def)

lemma breakdownEntries_ok:
  assumes "list_all entry_ok positionPart" and "scorePerformance p = Inr perf"
  shows "list_all entry_ok (breakdownEntries now p sp positionPart perf)"
proof -
  have "entry_ok (entry ''performance'' weight_performance perf)"
    using scorePerformance_range [OF assms(2)]
    by (simp add: entry_ok_entry weight_performance_def)
  moreover have "entry_ok (entry ''contract'' weight_contract (scoreContractStatus now p sp))"
    using scoreContractStatus_range [of now p sp] by (simp add: entry_ok_entry weight_contract_def)
  moreover have "\<And>r. entry_ok (entry ''age'' weight_age (scoreAge p r))"
    using scoreAge_range by (simp add: entry_ok_entry weight_age_def)
  moreover have "\<And>ns. entry_ok (entry ''nationality'' weight_nationality (scoreNationality p ns))"
    using scoreNationality_range by (simp add: entry_ok_entry weight_nationality_def)
  moreover have "\<And>ls. entry_ok (entry ''league'' weight_league (scoreLeague p ls))"
    using scoreLeague_range by (simp add: entry_ok_entry weight_league_def)
  moreover have "\<And>r. entry_ok (entry ''marketValue'' weight_marketValue (scoreMarketValue p r))"
    using scoreMarketValue_range by (simp add: entry_ok_entry weight_marketValue_def)
  ultimately show ?thesis
    using assms(1) by (simp add: breakdownEntries_def optionalEntry_def split: option.splits)
qed

lemma sum_entry_ok:
  "list_all entry_ok bd \<Longrightarrow>
   0 \<le> sum_list (map (\<lambda>kv. score (snd kv)) bd)
   \<and> sum_list (map (\<lambda>kv. score (snd kv)) bd) \<le> sum_list (map (\<lambda>kv. maxScore (snd kv)) bd)
   \<and> 0 \<le> sum_list (map (\<lambda>kv. maxScore (snd kv)) bd)"
  by (induction bd) (auto simp: entry_ok_def)

lemma breakdownEntries_max:
  assumes "list_all entry_ok positionPart"
  shows "8 \<le> sum_list (map (\<lambda>kv. maxScore (snd kv)) (breakdownEntries now p sp positionPart perf))"
proof -
  have "0 \<le> sum_list (map (\<lambda>kv. maxScore (snd kv)) positionPart)"
    using sum_entry_ok [OF assms] by simp
  then show ?thesis
    by (simp add: breakdownEntries_def optionalEntry_def entry_def weight_defs split: option.splits)
qed

lemma percentageOf_range:
  "0 \<le> t \<Longrightarrow> t \<le> m \<Longrightarrow> 0 \<le> percentageOf t m \<and> percentageOf t m \<le> 100"
  by (simp add: percentageOf_def divide_le_eq)

lemma calculateDetailedScore_Inr:
  assumes "calculateDetailedScore now candidate sp = Inr d"
  obtains p positionPart perf where
    "candidate = Some p" "scorePerformance p = Inr perf" "list_all entry_ok positionPart"
    "d = scoreOfBreakdown (breakdownEntries now p sp positionPart perf)"
proof -
  from assms obtain p where c: "candidate = Some p"
    by (cases candidate) (simp_all add: calculateDetailedScore_def)
  from assms c obtain perf where pf: "scorePerformance p = Inr perf"
    by (cases "scorePerformance p")
      (auto simp: calculateDetailedScore_def split: option.splits sum.splits)
  show ?thesis
  proof (cases "sp_position sp")
    case None
    with assms c pf have "d = scoreOfBreakdown (breakdownEntries now p sp [] perf)"
      by (simp add: calculateDetailedScore_def)
    with c pf show ?thesis using that [of p perf "[]"] by simp
  next
    case (Some ps)
    with assms c obtain m where m: "scorePosition p ps = Inr m"
      by (cases "scorePosition p ps") (auto simp: calculateDetailedScore_def)
    with assms c pf Some
    have "d = scoreOfBreakdown
        (breakdownEntries now p sp [entry ''position'' weight_position m] perf)"
      by (simp add: calculateDetailedScore_def)
    moreover have "list_all entry_ok [entry ''position'' weight_position m]"
      using scorePosition_range [OF m] by (simp add: entry_ok_entry weight_position_def)
    ultimately show ?thesis using that c pf by blast
  qed
qed

lemma calculateDetailedScore_total:
  assumes "position p \<noteq> JOther"
  shows "\<exists>d. calculateDetailedScore now (Some p) sp = Inr d"
proof -
  obtain perf where "scorePerformance p = Inr perf"
    using scorePerformance_total [OF assms] by blast
  note pf = this
  show ?thesis
  proof (cases "sp_position sp")
    case None
    with pf show ?thesis by (simp add: calculateDetailedScore_def)
  next
    case (Some ps)
    obtain m where "scorePosition p ps = Inr m"
      using scorePosition_total [OF assms] by blast
    with pf Some show ?thesis by (simp add: calculateDetailedScore_def)
  qed
qed

lemma calculateDetailedScore_entries:
  assumes "calculateDetailedScore now candidate sp = Inr d"
  shows "list_all entry_ok (breakdown d)"
proof -
  from assms obtain p positionPart perf where
    pf: "scorePerformance p = Inr perf" and ok: "list_all entry_ok positionPart"
    and d: "d = scoreOfBreakdown (breakdownEntries now p sp positionPart perf)"
    by (rule calculateDetailedScore_Inr)
  show ?thesis using breakdownEntries_ok [OF ok pf] by (simp add: d scoreOfBreakdown_def Let_def)
qed

lemma percentage_bounds:
  assumes "calculateDetailedScore now candidate sp = Inr d"
  shows "0 \<le> percentage d \<and> percentage d \<le> 100
    \<and> percentage d = percentageOf (totalScore d) (maxPossibleScore d)
    \<and> 8 \<le> maxPossibleScore d"
proof -
  from assms obtain p positionPart perf where
    pf: "scorePerformance p = Inr perf" and ok: "list_all entry_ok positionPart"
    and d: "d = scoreOfBreakdown (breakdownEntries now p sp positionPart perf)"
    by (rule calculateDetailedScore_Inr)
  let ?bd = "breakdownEntries now p sp positionPart perf"
  have okbd: "list_all entry_ok ?bd" using ok pf by (rule breakdownEntries_ok)
  have r: "0 \<le> percentageOf (sum_list (map (\<lambda>kv. score (snd kv)) ?bd))
                  (sum_list (map (\<lambda>kv. maxScore (snd kv)) ?bd))
    \<and> percentageOf (sum_list (map (\<lambda>kv. score (snd kv)) ?bd))
         (sum_list (map (\<lambda>kv. maxScore (snd kv)) ?bd)) \<le> 100"
    using sum_entry_ok [OF okbd] by (intro percentageOf_range) auto
  have m: "8 \<le> sum_list (map (\<lambda>kv. maxScore (snd kv)) ?bd)"
    using ok by (rule breakdownEntries_max)
  show ?thesis using r m by (simp add: d scoreOfBreakdown_def Let_def)
qed

lemma js_round_percent: "0 \<le> x \<Longrightarrow> x \<le> 100 \<Longrightarrow> 0 \<le> js_round x \<and> js_round x \<le> 100"
  by (simp add: js_round_def le_floor_iff floor_le_iff)

text \<open>
  C1 (the performance criterion of a goalkeeper with no goals and no assists). The
  goalkeeper benchmark expects 0 goals and 0 assists, so both ratios are 0/0, which is
  NaN and passes no threshold: the goalkeeper \<open>idleKeeper\<close> (0 goals, 0 assists, 10
  appearances) scores 0 on performance, while the same record with one goal and one
  assist scores 6.
\<close>

theorem goalkeeper_without_goals_scores_zero:
  "scorePerformance idleKeeper
     = Inr \<lparr>score = 0, explanation = ''Limited performance data''\<rparr>
   \<and> scorePerformance scoringKeeper
     = Inr \<lparr>score = 6, explanation = ''Excellent goals: 1, Excellent assists: 1''\<rparr>"
  by code_simp

lemma goalkeeper_score_from_appearances_only:
  assumes "position p = JString ''GK''" "goalsThisSeason p = 0" "assistsThisSeason p = 0"
  shows "\<exists>m. scorePerformance p = Inr m \<and> score m = appearancesPoints (appearancesThisSeason p) 25"
proof -
  have "benchmark_for (toUpperCase ''GK'') = \<lparr>goals = 0, assists = 0, appearances = 25\<rparr>"
    by code_simp
  then show ?thesis
    using assms
    by (simp add: scorePerformance_def Let_def js_div_def goalsPoints_def assistsPoints_def
        appearancesPoints_def weight_performance_def)
qed

text \<open>
  C7 (the percentage of a detailed score). Whenever the scorer computes a detailed score,
  its percentage lies between 0 and 100 and is the guarded quotient
  \<open>percentageOf totalScore maxPossibleScore\<close>, which is 0 for a maximum of 0.
\<close>

theorem detailed_score_percentage_in_range:
  assumes "calculateDetailedScore now candidate searchParams = Inr d"
  shows "0 \<le> percentage d \<and> percentage d \<le> 100
    \<and> percentage d = percentageOf (totalScore d) (maxPossibleScore d)
    \<and> (\<forall>t. percentageOf t 0 = 0)"
proof -
  have "\<forall>t. percentageOf t 0 = 0" by (simp add: percentageOf_def)
  with percentage_bounds [OF assms] show ?thesis by blast
qed

theorem detailed_score_percentage_in_range_witness:
  "\<exists>d. calculateDetailedScore 0 (Some contractedStriker) availableParams = Inr d
     \<and> totalScore d = 33 \<and> maxPossibleScore d = 35
     \<and> 0 \<le> percentage d \<and> percentage d \<le> 100"
proof -
  have h: "calculateDetailedScore 0 (Some contractedStriker) availableParams
      = Inr (scoreOfBreakdown
          [entry ''position'' 25 \<lparr>score = 25, explanation = ''Perfect position match: ST''\<rparr>,
           entry ''performance'' 8
             \<lparr>score = 8,
              explanation = ''Excellent goals: 27, Excellent assists: 8, Regular starter: 30 games''\<rparr>,
           entry ''contract'' 2 \<lparr>score = 0, explanation = ''Contract status neutral''\<rparr>])"
    by code_simp
  have t: "totalScore (scoreOfBreakdown
          [entry ''position'' 25 \<lparr>score = 25, explanation = ''Perfect position match: ST''\<rparr>,
           entry ''performance'' 8
             \<lparr>score = 8,
              explanation = ''Excellent goals: 27, Excellent assists: 8, Regular starter: 30 games''\<rparr>,
           entry ''contract'' 2 \<lparr>score = 0, explanation = ''Contract status neutral''\<rparr>]) = 33"
    by (simp add: scoreOfBreakdown_def entry_def Let_def)
  have m: "maxPossibleScore (scoreOfBreakdown
          [entry ''position'' 25 \<lparr>score = 25, explanation = ''Perfect position match: ST''\<rparr>,
           entry ''performance'' 8
             \<lparr>score = 8,
              explanation = ''Excellent goals: 27, Excellent assists: 8, Regular starter: 30 games''\<rparr>,
           entry ''contract'' 2 \<lparr>score = 0, explanation = ''Contract status neutral''\<rparr>]) = 35"
    by (simp add: scoreOfBreakdown_def entry_def Let_def)
  from detailed_score_percentage_in_range [OF h] h t m show ?thesis by blast
qed

section \<open>Properties of the match explanation\<close>

lemma set_insert_by: "set (insert_by cmp x xs) = insert x (set xs)"
  by (induction xs) auto

lemma set_js_sort: "set (js_sort cmp xs) = set xs"
  by (induction xs) (simp_all add: js_sort_def set_insert_by)

lemma sorted_insert_by_strength:
  "sorted_wrt byStrength xs \<Longrightarrow> sorted_wrt byStrength (insert_by compareStrength x xs)"
proof (induction xs)
  case Nil
  then show ?case by simp
next
  case (Cons y ys)
  show ?case
  proof (cases "compareStrength x y \<le> 0")
    case True
    then have xy: "byStrength x y" by (simp add: compareStrength_def byStrength_def)
    have "\<forall>z\<in>set ys. byStrength x z"
      using Cons.prems xy by (auto simp: byStrength_def)
    with True xy Cons.prems show ?thesis by simp
  next
    case False
    then have yx: "byStrength y x" by (simp add: compareStrength_def byStrength_def)
    with False Cons show ?thesis by (auto simp: set_insert_by)
  qed
qed

lemma sorted_js_sort_strength: "sorted_wrt byStrength (js_sort compareStrength xs)"
proof (induction xs)
  case Nil
  then show ?case by (simp add: js_sort_def)
next
  case (Cons x xs)
  then show ?case using sorted_insert_by_strength [of "js_sort compareStrength xs" x]
    by (simp add: js_sort_def)
qed

lemma strengthOf_thresholds:
  assumes "0 < mx"
  shows "strengthOf sc mx =
    (let pct = (of_int sc / of_int mx * 100 :: rat) in
     if 90 \<le> pct then Perfect else if 70 \<le> pct then Good
     else if 40 \<le> pct then Partial else Weak)"
  using assms by (simp add: strengthOf_def js_div_def Let_def)

lemma explanation_cases:
  assumes "generateMatchExplanation t1 t2 candidate sp ctx = Inr e"
  obtains (scored) p d where "candidate = Some p"
      "calculateDetailedScore t1 candidate sp = Inr d"
      "matchedCriteria e = generateMatchedCriteria p sp d"
      "strengthScore e = js_round (percentage d)"
    | (degraded) p where "candidate = Some p" "e = degradedExplanation p"
proof (cases "calculateDetailedScore t1 candidate sp")
  case (Inl err)
  with assms obtain p where "candidate = Some p" "e = degradedExplanation p"
    by (cases candidate)
      (auto simp: generateMatchExplanation_def explanationAttempt_def
        generateFallbackExplanation_def degradedExplanation_def)
  then show ?thesis by (rule degraded)
next
  case (Inr d)
  then obtain p where c: "candidate = Some p"
    by (cases candidate) (simp_all add: calculateDetailedScore_def)
  with assms Inr have "matchedCriteria e = generateMatchedCriteria p sp d"
    "strengthScore e = js_round (percentage d)"
    by (auto simp: generateMatchExplanation_def explanationAttempt_def)
  with c Inr show ?thesis by (rule scored)
qed

lemma matched_criterion_origin:
  assumes d: "calculateDetailedScore t1 candidate sp = Inr d"
    and c: "c \<in> set (generateMatchedCriteria p sp d)"
  shows "\<exists>k b. (k, b) \<in> set (breakdown d) \<and> criterion c = capitalize k \<and> 0 < score b
    \<and> matchStrength c =
        (if 90 \<le> strengthPercentage b then Perfect
         else if 70 \<le> strengthPercentage b then Good
         else if 40 \<le> strengthPercentage b then Partial
         else Weak)"
proof -
  from c obtain kv where kv: "kv \<in> set (breakdown d)" "0 < score (snd kv)"
    and ceq: "c = toCriterion p sp kv"
    by (auto simp: generateMatchedCriteria_def set_js_sort)
  have "entry_ok kv"
    using calculateDetailedScore_entries [OF d] kv(1) by (simp add: list_all_iff)
  then have pos: "0 < maxScore (snd kv)" by (simp add: entry_ok_def)
  have "matchStrength c =
        (if 90 \<le> strengthPercentage (snd kv) then Perfect
         else if 70 \<le> strengthPercentage (snd kv) then Good
         else if 40 \<le> strengthPercentage (snd kv) then Partial
         else Weak)"
    using strengthOf_thresholds [OF pos, of "score (snd kv)"]
    by (simp add: ceq toCriterion_def strengthPercentage_def Let_def)
  moreover have "criterion c = capitalize (fst kv)" by (simp add: ceq toCriterion_def)
  moreover have "(fst kv, snd kv) \<in> set (breakdown d)" using kv(1) by simp
  ultimately show ?thesis using kv(2) by blast
qed

text \<open>
  C6 (explain never throws), as the code has it. For an absent candidate the try block
  throws, and so does the catch handler when it reads the candidate's name: the promise
  is rejected.
\<close>

theorem explain_rejects_absent_candidate:
  "generateMatchExplanation 0 0 None defaultParams sampleContext = Inl TypeError"
  by (simp add: generateMatchExplanation_def explanationAttempt_def calculateDetailedScore_def
      generateFallbackExplanation_def)

text \<open>
  C6, amended: for every candidate record that is present, malformed or not, explain
  returns a match explanation; when the try block throws, the result is the degraded
  explanation: its summary names the candidate, it has no matched criteria, strength
  score 50 and the single concern that no detailed analysis could be generated.
\<close>

theorem explain_returns_for_present_candidate:
  "\<exists>e. generateMatchExplanation nowScore nowContext (Some p) searchParams ctx = Inr e
     \<and> ((\<exists>err. explanationAttempt nowScore nowContext (Some p) searchParams ctx = Inl err)
          \<longrightarrow> summary e = name p @ '' matches several of your search criteria''
            \<and> matchedCriteria e = []
            \<and> strengthScore e = 50
            \<and> potentialConcerns e = [''Unable to generate detailed analysis''])"
  by (cases "explanationAttempt nowScore nowContext (Some p) searchParams ctx")
    (simp_all add: generateMatchExplanation_def generateFallbackExplanation_def)

theorem explain_returns_for_present_candidate_witness:
  "explanationAttempt 0 0 (Some malformedKeeper) defaultParams sampleContext = Inl TypeError
   \<and> (\<exists>e. generateMatchExplanation 0 0 (Some malformedKeeper) defaultParams sampleContext = Inr e
        \<and> summary e = ''Great Keeper matches several of your search criteria''
        \<and> matchedCriteria e = []
        \<and> strengthScore e = 50
        \<and> potentialConcerns e = [''Unable to generate detailed analysis''])"
proof -
  have h: "explanationAttempt 0 0 (Some malformedKeeper) defaultParams sampleContext
      = Inl TypeError"
    by code_simp
  have n: "name malformedKeeper = ''Great Keeper''"
    by (simp add: malformedKeeper_def idleKeeper_def)
  from explain_returns_for_present_candidate
    [of 0 0 malformedKeeper defaultParams sampleContext] h n
  show ?thesis by auto
qed

text \<open>
  C8 (strength score and matched criteria). Every explanation that explain returns has a
  strength score between 0 and 100; its matched criteria are sorted by non-increasing
  strength (\<open>byStrength\<close>, with perfect above good above partial above weak), and each of
  them comes from a criterion of the breakdown whose score is positive, with the strength
  that the thresholds 90, 70 and 40 percent of the maximum give.
\<close>

theorem explanation_strength_and_criteria:
  assumes "generateMatchExplanation nowScore nowContext candidate searchParams ctx = Inr e"
  shows "0 \<le> strengthScore e \<and> strengthScore e \<le> 100
    \<and> sorted_wrt byStrength (matchedCriteria e)
    \<and> (\<forall>c \<in> set (matchedCriteria e).
          \<exists>d k b. calculateDetailedScore nowScore candidate searchParams = Inr d
            \<and> (k, b) \<in> set (breakdown d) \<and> criterion c = capitalize k \<and> 0 < score b
            \<and> matchStrength c =
                (if 90 \<le> strengthPercentage b then Perfect
                 else if 70 \<le> strengthPercentage b then Good
                 else if 40 \<le> strengthPercentage b then Partial
                 else Weak))
    \<and> strengthOrder Weak < strengthOrder Partial
    \<and> strengthOrder Partial < strengthOrder Good
    \<and> strengthOrder Good < strengthOrder Perfect"
  using assms
proof (cases rule: explanation_cases)
  case (scored p d)
  have "0 \<le> js_round (percentage d) \<and> js_round (percentage d) \<le> 100"
    using percentage_bounds [OF scored(2)] by (intro js_round_percent) auto
  moreover have "sorted_wrt byStrength (matchedCriteria e)"
    by (simp add: scored(3) generateMatchedCriteria_def sorted_js_sort_strength)
  moreover have "\<forall>c \<in> set (matchedCriteria e).
          \<exists>d k b. calculateDetailedScore nowScore candidate searchParams = Inr d
            \<and> (k, b) \<in> set (breakdown d) \<and> criterion c = capitalize k \<and> 0 < score b
            \<and> matchStrength c =
                (if 90 \<le> strengthPercentage b then Perfect
                 else if 70 \<le> strengthPercentage b then Good
                 else if 40 \<le> strengthPercentage b then Partial
                 else Weak)"
  proof
    fix c
    assume "c \<in> set (matchedCriteria e)"
    then have "c \<in> set (generateMatchedCriteria p searchParams d)" by (simp add: scored(3))
    from matched_criterion_origin [OF scored(2) this] scored(2)
    show "\<exists>d k b. calculateDetailedScore nowScore candidate searchParams = Inr d
            \<and> (k, b) \<in> set (breakdown d) \<and> criterion c = capitalize k \<and> 0 < score b
            \<and> matchStrength c =
                (if 90 \<le> strengthPercentage b then Perfect
                 else if 70 \<le> strengthPercentage b then Good
                 else if 40 \<le> strengthPercentage b then Partial
                 else Weak)"
      by blast
  qed
  ultimately show ?thesis by (simp add: scored(4))
next
  case (degraded p)
  then show ?thesis by (simp add: degradedExplanation_def)
qed

theorem explanation_strength_and_criteria_witness:
  "\<exists>e. generateMatchExplanation 0 0 (Some partialForward) strikerParams sampleContext = Inr e
     \<and> strengthScore e = 65
     \<and> map (\<lambda>c. (criterion c, matchStrength c)) (matchedCriteria e)
         = [(''Nationality'', Perfect), (''Position'', Good), (''Age'', Partial),
            (''Performance'', Weak)]
     \<and> 0 \<le> strengthScore e \<and> strengthScore e \<le> 100
     \<and> sorted_wrt byStrength (matchedCriteria e)"
proof -
  obtain e where h: "generateMatchExplanation 0 0 (Some partialForward) strikerParams sampleContext
      = Inr e"
    using explain_returns_for_present_candidate by blast
  have v: "map_sum id
      (\<lambda>e. (strengthScore e, map (\<lambda>c. (criterion c, matchStrength c)) (matchedCriteria e)))
      (generateMatchExplanation 0 0 (Some partialForward) strikerParams sampleContext)
    = Inr (65, [(''Nationality'', Perfect), (''Position'', Good), (''Age'', Partial),
                (''Performance'', Weak)])"
    by code_simp
  from explanation_strength_and_criteria [OF h] h v show ?thesis by simp
qed

text \<open>
  C9 (explain is idempotent), as the code has it. The contract scoring and the additional
  context read the clock, so two calls with the same candidate, parameters and context
  differ when the clock has moved: for \<open>contractedStriker\<close> a call at time 0 (13 months to
  expiry) and a call two thirty-day months later (11 months to expiry) give different
  explanations.
\<close>

theorem explain_depends_on_the_clock:
  "generateMatchExplanation 0 0 (Some contractedStriker) availableParams sampleContext
   \<noteq> generateMatchExplanation (2 * msPerMonth) (2 * msPerMonth) (Some contractedStriker)
       availableParams sampleContext"
  by code_simp

text \<open>
  C9, amended: explain depends on the clock only through the rounded number of months to
  the candidate's contract expiry. Two calls with the same candidate, parameters and
  context give the same result whenever their clock readings give the same number of
  months, in particular for every candidate without a contract expiry date.
\<close>

theorem explain_deterministic_up_to_months:
  assumes "\<forall>p d. candidate = Some p \<and> contractExpires p = Some d
      \<longrightarrow> monthsLeft d nowScore = monthsLeft d nowScore'
        \<and> monthsLeft d nowContext = monthsLeft d nowContext'"
  shows "generateMatchExplanation nowScore nowContext candidate searchParams ctx
    = generateMatchExplanation nowScore' nowContext' candidate searchParams ctx"
proof (cases candidate)
  case None
  then show ?thesis
    by (simp add: generateMatchExplanation_def explanationAttempt_def calculateDetailedScore_def)
next
  case (Some p)
  have s: "scoreContractStatus nowScore p searchParams = scoreContractStatus nowScore' p searchParams"
    using assms Some by (cases "contractExpires p") (simp_all add: scoreContractStatus_def)
  have a: "generateAdditionalContext nowContext p ctx = generateAdditionalContext nowContext' p ctx"
    using assms Some by (cases "contractExpires p") (simp_all add: generateAdditionalContext_def)
  have b: "\<And>pp pm. breakdownEntries nowScore p searchParams pp pm
      = breakdownEntries nowScore' p searchParams pp pm"
    by (simp add: breakdownEntries_def s)
  have "calculateDetailedScore nowScore candidate searchParams
      = calculateDetailedScore nowScore' candidate searchParams"
    by (simp add: Some calculateDetailedScore_def b split: option.splits sum.splits)
  then show ?thesis
    by (simp add: Some generateMatchExplanation_def explanationAttempt_def a split: sum.splits)
qed

theorem explain_deterministic_up_to_months_witness:
  "monthsLeft (DateAt (13 * msPerMonth)) 0 = monthsLeft (DateAt (13 * msPerMonth)) 86400000
   \<and> generateMatchExplanation 0 0 (Some contractedStriker) availableParams sampleContext
     = generateMatchExplanation 86400000 86400000 (Some contractedStriker) availableParams
         sampleContext"
proof -
  have m: "monthsLeft (DateAt (13 * msPerMonth)) 0 = monthsLeft (DateAt (13 * msPerMonth)) 86400000"
    by code_simp
  have c: "contractExpires contractedStriker = Some (DateAt (13 * msPerMonth))"
    by (simp add: contractedStriker_def)
  have "\<forall>p d. Some contractedStriker = Some p \<and> contractExpires p = Some d
      \<longrightarrow> monthsLeft d 0 = monthsLeft d 86400000 \<and> monthsLeft d 0 = monthsLeft d 86400000"
    using m c by auto
  from explain_deterministic_up_to_months [OF this] m show ?thesis by simp
qed

end
